theory Spec2Isabelle
  imports Complex_Main
begin

section \<open>Zernike polynomials, wavefronts and the 3D point-spread function\<close>

text \<open>
  A shallow embedding of \<^verbatim>\<open>ZernikeOptics.py\<close>. Python integers are \<open>int\<close>;
  the exceptions the module raises are values of \<open>error\<close>, and a function that
  may raise returns \<open>error + 'a\<close>.
\<close>

datatype error = ValueError | AssertionError | AttributeError | ZeroDivisionError | KeyError | IndexError
  | OverflowError

subsection \<open>Index translation\<close>

text \<open>
  \<^verbatim>\<open>nm_to_noll\<close>: four guarded returns tried in the source's order, then
  \<^verbatim>\<open>assert False\<close>. Python's \<open>//\<close> and \<open>%\<close> are floor division and its
  non-negative remainder, which is what \<open>div\<close> and \<open>mod\<close> are on \<open>int\<close>.
\<close>

definition nm_to_noll :: "int \<Rightarrow> int \<Rightarrow> error + int" where
  "nm_to_noll n m =
     (let j = (n * (n + 1)) div 2 + \<bar>m\<bar> in
      if m > 0 \<and> n mod 4 \<in> {0, 1} then Inr j
      else if m < 0 \<and> n mod 4 \<in> {2, 3} then Inr j
      else if m \<ge> 0 \<and> n mod 4 \<in> {2, 3} then Inr (j + 1)
      else if m \<le> 0 \<and> n mod 4 \<in> {0, 1} then Inr (j + 1)
      else Inl AssertionError)"

definition nm_to_ansi :: "int \<Rightarrow> int \<Rightarrow> int" where
  "nm_to_ansi n m = (n * (n + 2) + m) div 2"

text \<open>
  \<^verbatim>\<open>Zernike._nm_pairs\<close>: the pairs \<open>(n, m)\<close> for \<open>n\<close> in \<open>range(200)\<close> and
  \<open>m\<close> in \<open>range(-n, n + 1, 2)\<close>. The source collects them in a set; the list below
  is the order in which the comprehension produces them, and \<open>build_table_perm\<close>
  shows that the tables do not depend on the order in which the set is iterated.
\<close>

definition nm_pairs_upto :: "int \<Rightarrow> (int \<times> int) list" where
  "nm_pairs_upto N = concat (map (\<lambda>n. map (\<lambda>k. (n, 2 * k - n)) [0..n]) [0..N - 1])"

definition nm_pairs :: "(int \<times> int) list" where
  "nm_pairs = nm_pairs_upto 200"

text \<open>
  \<^verbatim>\<open>dict(zip(keys, pairs))\<close>: the keys are computed from the
  pairs one at a time, a later pair overwrites an earlier one with the same key, and an
  exception raised by \<open>f\<close> aborts the construction.
\<close>

fun build_table ::
  "(int \<Rightarrow> int \<Rightarrow> error + int) \<Rightarrow> (int \<times> int) list \<Rightarrow> (int \<rightharpoonup> int \<times> int)
     \<Rightarrow> error + (int \<rightharpoonup> int \<times> int)" where
  "build_table f [] d = Inr d"
| "build_table f (p # ps) d =
     (case f (fst p) (snd p) of
        Inl e \<Rightarrow> Inl e
      | Inr j \<Rightarrow> build_table f ps (d(j \<mapsto> p)))"

definition noll_to_nm :: "error + (int \<rightharpoonup> int \<times> int)" where
  "noll_to_nm = build_table nm_to_noll nm_pairs Map.empty"

definition ansi_to_nm :: "error + (int \<rightharpoonup> int \<times> int)" where
  "ansi_to_nm = build_table (\<lambda>n m. Inr (nm_to_ansi n m)) nm_pairs Map.empty"

text \<open>The descriptors of the enumeration: \<open>0 \<le> n < N\<close>, \<open>|m| \<le> n\<close>, \<open>n - m\<close> even.\<close>

definition valid_nm :: "int \<Rightarrow> int \<times> int \<Rightarrow> bool" where
  "valid_nm N p = (0 \<le> fst p \<and> fst p < N \<and> \<bar>snd p\<bar> \<le> fst p \<and> even (fst p - snd p))"

definition bindE :: "error + 'a \<Rightarrow> ('a \<Rightarrow> error + 'b) \<Rightarrow> error + 'b" where
  "bindE r f = (case r of Inl e \<Rightarrow> Inl e | Inr v \<Rightarrow> f v)"

text \<open>\<^verbatim>\<open>table[index]\<close> after the guard \<^verbatim>\<open>index in table or present(ValueError(...))\<close>.\<close>

definition table_lookup :: "error + (int \<rightharpoonup> int \<times> int) \<Rightarrow> int \<Rightarrow> error + int \<times> int" where
  "table_lookup tab j =
     bindE tab (\<lambda>t. case t j of None \<Rightarrow> Inl ValueError | Some p \<Rightarrow> Inr p)"

subsection \<open>The class \<^verbatim>\<open>Zernike\<close>\<close>

definition ansi_names :: "string list" where
  "ansi_names =
     [''piston'', ''tilt'', ''tip'', ''oblique astigmatism'', ''defocus'',
      ''vertical astigmatism'', ''vertical trefoil'', ''vertical coma'',
      ''horizontal coma'', ''oblique trefoil'', ''oblique quadrafoil'',
      ''oblique secondary astigmatism'', ''primary spherical'',
      ''vertical secondary astigmatism'', ''vertical quadrafoil'']"

text \<open>
  The \<^verbatim>\<open>index\<close> argument of the constructor: a string, a list or tuple of
  integers, an integer, or anything else. Strings are ASCII.
\<close>

datatype index = IdxStr string | IdxSeq "int list" | IdxInt int | IdxOther

definition is_digit_char :: "char \<Rightarrow> bool" where
  "is_digit_char c = (48 \<le> (of_char c :: nat) \<and> (of_char c :: nat) \<le> 57)"

definition str_isdigit :: "string \<Rightarrow> bool" where
  "str_isdigit s = (s \<noteq> [] \<and> list_all is_digit_char s)"

definition str_to_int :: "string \<Rightarrow> int" where
  "str_to_int s = foldl (\<lambda>a c. 10 * a + (int (of_char c) - 48)) 0 s"

definition lower_char :: "char \<Rightarrow> char" where
  "lower_char c =
     (if 65 \<le> (of_char c :: nat) \<and> (of_char c :: nat) \<le> 90
      then char_of ((of_char c :: nat) + 32) else c)"

definition str_lower :: "string \<Rightarrow> string" where
  "str_lower s = map lower_char s"

text \<open>\<^verbatim>\<open>list.index(x)\<close>: the position of the first occurrence.\<close>

fun list_index :: "'a list \<Rightarrow> 'a \<Rightarrow> error + int" where
  "list_index [] x = Inl ValueError"
| "list_index (y # ys) x =
     (if y = x then Inr 0 else bindE (list_index ys x) (\<lambda>i. Inr (i + 1)))"

text \<open>\<^verbatim>\<open>xs[i]\<close> on a Python list: a negative index counts from the end.\<close>

definition py_get :: "'a list \<Rightarrow> int \<Rightarrow> error + 'a" where
  "py_get xs i =
     (let len = int (length xs); j = (if i < 0 then len + i else i)
      in if 0 \<le> j \<and> j < len then Inr (xs ! nat j) else Inl IndexError)"

record zernike =
  z_n :: int
  z_m :: int
  z_index_noll :: int
  z_index_ansi :: int
  z_name :: "string option"
  z_mutable :: bool

text \<open>
  \<^verbatim>\<open>Zernike.__init__\<close>. The class body has built both tables before any object
  is made, so an exception there leaves no constructor to call. The attribute
  assignments of the constructor run while \<^verbatim>\<open>_mutable\<close> is true; the last one
  sets it to false.
\<close>

definition Zernike_resolve_str :: "index \<Rightarrow> string \<Rightarrow> error + index \<times> string" where
  "Zernike_resolve_str index order =
     (case index of
        IdxStr s \<Rightarrow>
          if str_isdigit s then Inr (IdxInt (str_to_int s), order)
          else (let name = str_lower s in
                if name \<in> set ansi_names
                then bindE (list_index ansi_names name) (\<lambda>i. Inr (IdxInt i, ''ansi''))
                else Inl ValueError)
      | _ \<Rightarrow> Inr (index, order))"

definition Zernike_resolve_nm :: "index \<Rightarrow> string \<Rightarrow> error + int \<times> int" where
  "Zernike_resolve_nm index order =
     (case index of
        IdxSeq [a, b] \<Rightarrow> if (a, b) \<in> set nm_pairs then Inr (a, b) else Inl ValueError
      | IdxInt i \<Rightarrow>
          (let order' = str_lower order in
           if order' \<notin> {''noll'', ''ansi''} then Inl ValueError
           else if order' = ''noll'' then table_lookup noll_to_nm i
           else table_lookup ansi_to_nm i)
      | _ \<Rightarrow> Inl ValueError)"

definition Zernike_init :: "index \<Rightarrow> string \<Rightarrow> error + zernike" where
  "Zernike_init index order =
     bindE noll_to_nm (\<lambda>_. bindE ansi_to_nm (\<lambda>_.
     bindE (Zernike_resolve_str index order) (\<lambda>(index', order').
     bindE (Zernike_resolve_nm index' order') (\<lambda>(n, m).
     bindE (nm_to_noll n m) (\<lambda>j_noll.
       let j_ansi = nm_to_ansi n m in
       bindE (if j_ansi < int (length ansi_names)
              then bindE (py_get ansi_names j_ansi) (\<lambda>s. Inr (Some s))
              else Inr None) (\<lambda>nm.
         Inr \<lparr>z_n = n, z_m = m, z_index_noll = j_noll, z_index_ansi = j_ansi,
              z_name = nm, z_mutable = False\<rparr>))))))"

text \<open>\<^verbatim>\<open>__eq__\<close> and \<^verbatim>\<open>__hash__\<close> use \<open>(n, m)\<close>; \<^verbatim>\<open>__lt__\<close> uses the ANSI index.\<close>

definition Zernike_eq :: "zernike \<Rightarrow> zernike \<Rightarrow> bool" where
  "Zernike_eq a b = ((z_n a, z_m a) = (z_n b, z_m b))"

definition Zernike_lt :: "zernike \<Rightarrow> zernike \<Rightarrow> bool" where
  "Zernike_lt a b = (z_index_ansi a < z_index_ansi b)"

text \<open>
  \<^verbatim>\<open>Zernike.__setattr__\<close>: the assignment is handed to \<^verbatim>\<open>object.__setattr__\<close>
  only while \<^verbatim>\<open>_mutable\<close> is true, otherwise AttributeError is raised.
  \<^verbatim>\<open>object.__setattr__\<close> is the interpreter's and is a parameter here: it gives
  the exception it raises, if any, and the object as it is afterwards. Attribute
  names are strings and the assigned value is of any type.
\<close>

definition Zernike_setattr ::
  "(zernike \<Rightarrow> string \<Rightarrow> 'v \<Rightarrow> error option \<times> zernike) \<Rightarrow> zernike \<Rightarrow> string \<Rightarrow> 'v
     \<Rightarrow> error option \<times> zernike" where
  "Zernike_setattr super_setattr z a v =
     (if z_mutable z then super_setattr z a v else (Some AttributeError, z))"

subsection \<open>Numbers and arrays\<close>

text \<open>
  A NumPy float is a real number or \<open>None\<close>, which stands for a value that is not
  a finite number (NaN, or the infinity a division by zero gives); a complex
  entry likewise. Rounding and overflow are not modelled. Arithmetic with a
  non-finite operand is non-finite, and a comparison with one is false, as for
  NaN and for the \<open>+inf\<close> the module can produce from finite arguments.
\<close>

type_synonym npfloat = "real option"
type_synonym npcomplex = "complex option"

definition lift2 :: "('a \<Rightarrow> 'b \<Rightarrow> 'c) \<Rightarrow> 'a option \<Rightarrow> 'b option \<Rightarrow> 'c option" where
  "lift2 f a b = (case a of None \<Rightarrow> None | Some x \<Rightarrow> (case b of None \<Rightarrow> None | Some y \<Rightarrow> Some (f x y)))"

definition fadd :: "npfloat \<Rightarrow> npfloat \<Rightarrow> npfloat" where
  "fadd = lift2 plus"

definition fmul :: "npfloat \<Rightarrow> npfloat \<Rightarrow> npfloat" where
  "fmul = lift2 times"

definition cadd :: "npcomplex \<Rightarrow> npcomplex \<Rightarrow> npcomplex" where
  "cadd = lift2 plus"

definition cmul :: "npcomplex \<Rightarrow> npcomplex \<Rightarrow> npcomplex" where
  "cmul = lift2 times"


text \<open>\<^verbatim>\<open>x ** k\<close> for an integer \<open>k \<ge> 0\<close>: the power \<open>0\<close> of anything is \<open>1\<close>.\<close>

definition fpow :: "npfloat \<Rightarrow> nat \<Rightarrow> npfloat" where
  "fpow a k = (if k = 0 then Some 1 else map_option (\<lambda>x. x ^ k) a)"

definition fle :: "npfloat \<Rightarrow> real \<Rightarrow> bool" where
  "fle a c = (case a of None \<Rightarrow> False | Some x \<Rightarrow> x \<le> c)"

definition flt :: "npfloat \<Rightarrow> real \<Rightarrow> bool" where
  "flt a c = (case a of None \<Rightarrow> False | Some x \<Rightarrow> x < c)"


definition of_bool_f :: "bool \<Rightarrow> npfloat" where
  "of_bool_f b = Some (if b then 1 else 0)"


text \<open>
  \<^verbatim>\<open>np.arctan2(y, x)\<close> and \<^verbatim>\<open>np.hypot(y, x)\<close> on finite arguments, and
  \<^verbatim>\<open>np.linspace(start, stop, num)\<close>.
\<close>

definition arctan2 :: "real \<Rightarrow> real \<Rightarrow> real" where
  "arctan2 y x =
     (if x > 0 then arctan (y / x)
      else if x < 0 \<and> y \<ge> 0 then arctan (y / x) + pi
      else if x < 0 then arctan (y / x) - pi
      else if y > 0 then pi / 2
      else if y < 0 then - pi / 2
      else 0)"

definition hypot :: "real \<Rightarrow> real \<Rightarrow> real" where
  "hypot y x = sqrt (y\<^sup>2 + x\<^sup>2)"

definition linspace :: "real \<Rightarrow> real \<Rightarrow> nat \<Rightarrow> real list" where
  "linspace start stop num =
     (if num = 1 then [start]
      else map (\<lambda>i. start + real i * ((stop - start) / real (num - 1))) [0..<num])"

text \<open>
  \<^verbatim>\<open>np.meshgrid(a, b, indexing='ij')\<close>: entry \<open>(i, j)\<close> of the first grid is
  \<open>a[i]\<close>, of the second \<open>b[j]\<close>; with three axes likewise.
\<close>

definition meshgrid2 :: "'a list \<Rightarrow> 'a list \<Rightarrow> 'a list list \<times> 'a list list" where
  "meshgrid2 a b = (map (\<lambda>y. map (\<lambda>x. y) b) a, map (\<lambda>y. map (\<lambda>x. x) b) a)"


text \<open>Elementwise operations on two-dimensional arrays of one shape.\<close>

definition map2d :: "('a \<Rightarrow> 'b) \<Rightarrow> 'a list list \<Rightarrow> 'b list list" where
  "map2d f a = map (map f) a"

definition zip2d :: "('a \<Rightarrow> 'b \<Rightarrow> 'c) \<Rightarrow> 'a list list \<Rightarrow> 'b list list \<Rightarrow> 'c list list" where
  "zip2d f a b = map2 (map2 f) a b"

definition map3d :: "('a \<Rightarrow> 'b) \<Rightarrow> 'a list list list \<Rightarrow> 'b list list list" where
  "map3d f a = map (map (map f)) a"


subsection \<open>Evaluating one polynomial\<close>

text \<open>
  \<^verbatim>\<open>nm_polynomial\<close>. The loop over \<open>k\<close> accumulates the radial polynomial;
  \<^verbatim>\<open>scipy.special.binom\<close> on the non-negative integers it is given here is the
  binomial coefficient. \<open>rho\<close> and \<open>theta\<close> are two-dimensional arrays of one
  shape, as every caller in the module passes them.
\<close>

definition radial_term :: "int \<Rightarrow> int \<Rightarrow> nat \<Rightarrow> npfloat \<Rightarrow> npfloat" where
  "radial_term rn rm k rho =
     fmul (Some ((- 1) ^ k * real (nat (rn - int k) choose k)
                 * real (nat (rn - 2 * int k) choose (nat ((rn - rm) div 2 - int k)))))
          (fpow rho (nat (rn - 2 * int k)))"

definition radial_sum :: "int \<Rightarrow> int \<Rightarrow> npfloat \<Rightarrow> npfloat" where
  "radial_sum rn rm rho =
     fold (\<lambda>k radial. fadd radial (radial_term rn rm k rho))
          [0..<nat ((rn - rm) div 2 + 1)] (Some 0)"

definition prefac :: "int \<Rightarrow> int \<Rightarrow> bool \<Rightarrow> real" where
  "prefac rn rm normed =
     (if normed
      then 1 / sqrt ((1 + (if rm = 0 then 1 else 0)) / (2 * real_of_int rn + 2)) / sqrt pi
      else 1)"

definition nm_polynomial_pt :: "int \<Rightarrow> int \<Rightarrow> bool \<Rightarrow> npfloat \<Rightarrow> npfloat \<Rightarrow> npfloat" where
  "nm_polynomial_pt zn zm normed rho theta =
     (let rn = zn; rm = \<bar>zm\<bar>;
          radial = fmul (radial_sum rn rm rho) (of_bool_f (fle rho 1))
      in if zm \<ge> 0
         then fmul (fmul (Some (prefac rn rm normed)) radial)
                   (map_option cos (fmul (Some (real_of_int rm)) theta))
         else fmul (fmul (Some (prefac rn rm normed)) radial)
                   (map_option sin (fmul (Some (real_of_int rm)) theta)))"

definition nm_polynomial ::
  "int \<Rightarrow> int \<Rightarrow> npfloat list list \<Rightarrow> npfloat list list \<Rightarrow> bool \<Rightarrow> error + npfloat list list" where
  "nm_polynomial zn zm rho theta normed =
     (let rn = zn; rm = \<bar>zm\<bar> in
      if rm > rn then Inl ValueError
      else if (rn - rm) mod 2 = 1
      then Inr (zip2d (\<lambda>r t. fadd (fmul (Some 0) r) (fmul (Some 0) t)) rho theta)
      else Inr (zip2d (nm_polynomial_pt zn zm normed) rho theta))"

text \<open>\<^verbatim>\<open>rho_theta\<close> and \<^verbatim>\<open>outside_mask\<close>; the cache does not change what they return.\<close>

definition rho_theta :: "nat \<Rightarrow> npfloat list list \<times> npfloat list list" where
  "rho_theta sz =
     (let dy = linspace (- 1) 1 sz; dx = linspace (- 1) 1 sz;
          (y, x) = meshgrid2 dy dx
      in (zip2d (\<lambda>a b. Some (hypot a b)) y x, zip2d (\<lambda>a b. Some (arctan2 a b)) y x))"

definition outside_mask :: "nat \<Rightarrow> error + bool list list" where
  "outside_mask sz =
     (let (rho, theta) = rho_theta sz
      in bindE (nm_polynomial 0 0 rho theta False) (\<lambda>p. Inr (map2d (\<lambda>v. flt v 1) p)))"

text \<open>
  \<^verbatim>\<open>ans[mask] = outside\<close>: the entries where the mask is true are replaced.
\<close>

definition assign_masked :: "bool list list \<Rightarrow> 'a \<Rightarrow> 'a list list \<Rightarrow> 'a list list" where
  "assign_masked msk v a = zip2d (\<lambda>b x. if b then v else x) msk a"

definition Zernike_polynomial ::
  "zernike \<Rightarrow> int \<Rightarrow> bool \<Rightarrow> npfloat \<Rightarrow> error + npfloat list list" where
  "Zernike_polynomial z sz normed outside =
     (if \<not> sz > 0 then Inl ValueError
      else let (rho, theta) = rho_theta (nat sz) in
           bindE (nm_polynomial (z_n z) (z_m z) rho theta normed) (\<lambda>ans.
           bindE (outside_mask (nat sz)) (\<lambda>msk.
             Inr (assign_masked msk outside ans))))"

definition Zernike_phase ::
  "zernike \<Rightarrow> npfloat list list \<Rightarrow> npfloat list list \<Rightarrow> bool \<Rightarrow> npfloat option
     \<Rightarrow> error + npfloat list list" where
  "Zernike_phase z rho theta normed outside =
     bindE (nm_polynomial (z_n z) (z_m z) rho theta normed) (\<lambda>ans.
       case outside of
         None \<Rightarrow> Inr ans
       | Some v \<Rightarrow>
           bindE (nm_polynomial 0 0 rho theta False) (\<lambda>p.
             Inr (assign_masked (map2d (\<lambda>x. flt x 1) p) v ans)))"

subsection \<open>The class \<^verbatim>\<open>ZernikeWavefront\<close>\<close>

text \<open>
  An amplitude is a scalar or some other object. The \<^verbatim>\<open>amplitudes\<close> argument is a
  dict (its items in insertion order, the keys distinct), an array (already
  flattened; its entries are scalars), a tuple or list, or anything else.
\<close>

datatype pyval = Scalar npfloat | NonScalar

datatype amplitudes = AmpDict "(index \<times> pyval) list" | AmpArray "npfloat list"
  | AmpSeq "pyval list" | AmpOther

definition ensure_dict :: "amplitudes \<Rightarrow> string \<Rightarrow> error + (index \<times> pyval) list" where
  "ensure_dict values order =
     (let from_seq = (\<lambda>vs.
            let order' = str_lower order in
            if order' \<notin> {''noll'', ''ansi''} then Inl ValueError
            else let offset = (if order' = ''noll'' then 1 else 0 :: int)
                 in Inr (zip (map IdxInt [offset..offset + int (length vs) - 1]) vs))
      in case values of
           AmpDict d \<Rightarrow> Inr d
         | AmpArray xs \<Rightarrow> from_seq (map Scalar xs)
         | AmpSeq vs \<Rightarrow> from_seq vs
         | AmpOther \<Rightarrow> Inl ValueError)"

text \<open>
  A dict as the list of its items in insertion order: storing under a key that
  is present replaces the value in place, a new key goes to the end.
\<close>

fun dict_set :: "('k \<Rightarrow> 'k \<Rightarrow> bool) \<Rightarrow> ('k \<times> 'v) list \<Rightarrow> 'k \<Rightarrow> 'v \<Rightarrow> ('k \<times> 'v) list" where
  "dict_set eq [] k v = [(k, v)]"
| "dict_set eq ((k', v') # d) k v =
     (if eq k' k then (k', v) # d else (k', v') # dict_set eq d k v)"

fun dict_get :: "('k \<Rightarrow> 'k \<Rightarrow> bool) \<Rightarrow> ('k \<times> 'v) list \<Rightarrow> 'k \<Rightarrow> error + 'v" where
  "dict_get eq [] k = Inl KeyError"
| "dict_get eq ((k', v') # d) k = (if eq k' k then Inr v' else dict_get eq d k)"

text \<open>\<^verbatim>\<open>out[k] = v\<close> on a Python list.\<close>

definition py_set :: "'a list \<Rightarrow> int \<Rightarrow> 'a \<Rightarrow> error + 'a list" where
  "py_set xs i v =
     (let len = int (length xs); j = (if i < 0 then len + i else i)
      in if 0 \<le> j \<and> j < len then Inr (xs[nat j := v]) else Inl IndexError)"

text \<open>\<^verbatim>\<open>dict_to_list\<close>: \<^verbatim>\<open>max\<close> of no keys raises ValueError.\<close>

fun dict_to_list_loop :: "(int \<times> npfloat) list \<Rightarrow> npfloat list \<Rightarrow> error + npfloat list" where
  "dict_to_list_loop [] out = Inr out"
| "dict_to_list_loop ((k, v) # kv) out = bindE (py_set out k v) (dict_to_list_loop kv)"

definition dict_to_list :: "(int \<times> npfloat) list \<Rightarrow> error + npfloat list" where
  "dict_to_list kv =
     (case map fst kv of
        [] \<Rightarrow> Inl ValueError
      | k # ks \<Rightarrow>
          (let max_key = fold max ks k
           in dict_to_list_loop kv (replicate (nat (max_key + 1)) (Some 0))))"

record wavefront =
  zernikes :: "(zernike \<times> npfloat) list"
  amplitudes_noll :: "npfloat list"
  amplitudes_ansi :: "npfloat list"
  amplitudes_requested :: "npfloat list"

fun scalar_values :: "(index \<times> pyval) list \<Rightarrow> error + (index \<times> npfloat) list" where
  "scalar_values [] = Inr []"
| "scalar_values ((j, Scalar a) # d) = bindE (scalar_values d) (\<lambda>r. Inr ((j, a) # r))"
| "scalar_values ((j, NonScalar) # d) = Inl ValueError"

fun build_zernikes ::
  "string \<Rightarrow> (index \<times> npfloat) list \<Rightarrow> (zernike \<times> npfloat) list
     \<Rightarrow> error + (zernike \<times> npfloat) list" where
  "build_zernikes order [] d = Inr d"
| "build_zernikes order ((j, a) # items) d =
     bindE (Zernike_init j order) (\<lambda>z. build_zernikes order items (dict_set Zernike_eq d z a))"

fun map_err :: "('a \<Rightarrow> error + 'b) \<Rightarrow> 'a list \<Rightarrow> error + 'b list" where
  "map_err f [] = Inr []"
| "map_err f (x # xs) = bindE (f x) (\<lambda>y. bindE (map_err f xs) (\<lambda>ys. Inr (y # ys)))"

text \<open>
  \<^verbatim>\<open>ZernikeWavefront.__init__\<close>. \<^verbatim>\<open>sorted\<close> is a stable sort that compares with
  \<^verbatim>\<open>__lt__\<close>, that is by ANSI index.
\<close>

definition ZernikeWavefront_init :: "amplitudes \<Rightarrow> string \<Rightarrow> error + wavefront" where
  "ZernikeWavefront_init amps order =
     bindE (ensure_dict amps order) (\<lambda>d.
     bindE (scalar_values d) (\<lambda>items.
     bindE (build_zernikes order items []) (\<lambda>zs.
     bindE (dict_to_list (fold (\<lambda>(z, a) kv. dict_set (=) kv (z_index_noll z) a) zs [])) (\<lambda>l_noll.
     bindE (dict_to_list (fold (\<lambda>(z, a) kv. dict_set (=) kv (z_index_ansi z) a) zs [])) (\<lambda>l_ansi.
     bindE (map_err (dict_get Zernike_eq zs) (sort_key z_index_ansi (map fst zs))) (\<lambda>req.
       Inr \<lparr>zernikes = zs, amplitudes_noll = drop 1 l_noll, amplitudes_ansi = l_ansi,
            amplitudes_requested = req\<rparr>))))))"

definition ZernikeWavefront_len :: "wavefront \<Rightarrow> nat" where
  "ZernikeWavefront_len w = length (zernikes w)"

text \<open>
  The class \<^verbatim>\<open>ZernikeWavefront\<close> defines no \<^verbatim>\<open>__setattr__\<close> and no other guard:
  an assignment to an attribute of a wavefront is \<^verbatim>\<open>object.__setattr__\<close>'s, and
  its outcome, a stored value or an exception, is the outcome of the assignment.
\<close>

definition ZernikeWavefront_setattr ::
  "(wavefront \<Rightarrow> 'a \<Rightarrow> error option \<times> wavefront) \<Rightarrow> wavefront \<Rightarrow> 'a
     \<Rightarrow> error option \<times> wavefront" where
  "ZernikeWavefront_setattr super_setattr w assignment = super_setattr w assignment"

text \<open>
  \<^verbatim>\<open>np.sum(list_of_arrays, axis=0)\<close> adds the arrays entry by entry in list
  order; of the empty list it is the scalar \<open>0.0\<close>.
\<close>

datatype 'a nd = NdScalar 'a | NdArray "'a list list"

definition np_sum_axis0 :: "npfloat list list list \<Rightarrow> npfloat nd" where
  "np_sum_axis0 terms =
     (case terms of [] \<Rightarrow> NdScalar (Some 0) | t # ts \<Rightarrow> NdArray (foldl (zip2d fadd) t ts))"

definition ZernikeWavefront_polynomial ::
  "wavefront \<Rightarrow> int \<Rightarrow> bool \<Rightarrow> npfloat \<Rightarrow> error + npfloat nd" where
  "ZernikeWavefront_polynomial w sz normed outside =
     bindE (map_err (\<lambda>(z, a). bindE (Zernike_polynomial z sz normed outside)
                                (\<lambda>p. Inr (map2d (fmul a) p))) (zernikes w))
           (\<lambda>terms. Inr (np_sum_axis0 terms))"

definition ZernikeWavefront_phase ::
  "wavefront \<Rightarrow> npfloat list list \<Rightarrow> npfloat list list \<Rightarrow> bool \<Rightarrow> npfloat option
     \<Rightarrow> error + npfloat nd" where
  "ZernikeWavefront_phase w rho theta normed outside =
     bindE (map_err (\<lambda>(z, a). bindE (Zernike_phase z rho theta normed outside)
                                (\<lambda>p. Inr (map2d (fmul a) p))) (zernikes w))
           (\<lambda>terms. Inr (np_sum_axis0 terms))"

subsection \<open>The class \<^verbatim>\<open>PsfGenerator3D\<close>\<close>

text \<open>
  \<^verbatim>\<open>np.roll\<close> along one axis moves the entry at \<open>i\<close> to \<open>(i + shift) mod len\<close>.
  \<^verbatim>\<open>np.fft.fftshift\<close> rolls by \<open>len // 2\<close>, \<^verbatim>\<open>np.fft.ifftshift\<close> by
  \<open>-(len // 2)\<close>.
\<close>

definition roll :: "int \<Rightarrow> 'a list \<Rightarrow> 'a list" where
  "roll shift xs =
     (let len = length xs; k = nat (shift mod int len)
      in drop (len - k) xs @ take (len - k) xs)"

definition fftshift :: "'a list \<Rightarrow> 'a list" where
  "fftshift xs = roll (int (length xs div 2)) xs"


text \<open>
  \<^verbatim>\<open>np.fft.fftfreq(n, d)\<close>: \<^verbatim>\<open>1.0 / (n * d)\<close> is a division of Python floats, which
  raises ZeroDivisionError on a zero divisor; a negative \<open>n\<close> is refused when the
  result array is allocated.
\<close>

definition fftfreq :: "int \<Rightarrow> real \<Rightarrow> error + real list" where
  "fftfreq n d =
     (if real_of_int n * d = 0 then Inl ZeroDivisionError
      else if n < 0 then Inl ValueError
      else let val = 1 / (real_of_int n * d); N = (n - 1) div 2 + 1
           in Inr (map (\<lambda>i. real_of_int i * val) ([0..N - 1] @ [- (n div 2)..- 1])))"

text \<open>
  \<^verbatim>\<open>np.fft.ifftn(x, axes=(1, 2))\<close>: the inverse discrete Fourier transform of each
  \<open>z\<close>-slice, with the factor \<open>1 / (ny * nx)\<close>; \<^verbatim>\<open>np.fft.fftshift(x, axes=(1, 2))\<close>
  rolls the rows of each slice and the entries of each row.
\<close>

definition csum :: "npcomplex list \<Rightarrow> npcomplex" where
  "csum xs = fold (\<lambda>x acc. cadd acc x) xs (Some 0)"

definition ifft2 :: "npcomplex list list \<Rightarrow> npcomplex list list" where
  "ifft2 sl =
     (let ny = length sl; nx = (case sl of [] \<Rightarrow> 0 | r # _ \<Rightarrow> length r)
      in map (\<lambda>y. map (\<lambda>x.
           cmul (Some (1 / (of_nat ny * of_nat nx)))
                (csum (concat (map (\<lambda>a. map (\<lambda>b.
                   cmul (sl ! a ! b)
                        (Some (exp (2 * \<i> * of_real pi
                                    * (of_nat a * of_nat y / of_nat ny
                                       + of_nat b * of_nat x / of_nat nx)))))
                   [0..<nx]) [0..<ny])))) [0..<nx]) [0..<ny])"

definition my_ifftn :: "npcomplex list list list \<Rightarrow> npcomplex list list list" where
  "my_ifftn x = map ifft2 x"

definition my_ifftshift :: "'a list list list \<Rightarrow> 'a list list list" where
  "my_ifftshift x = map (\<lambda>sl. map fftshift (fftshift sl)) x"

record psf_generator =
  psf_na_detection :: real
  psf_n :: real
  psf_lam_detection :: real
  psf_nz :: int
  psf_ny :: int
  psf_nx :: int
  psf_dz :: real
  psf_dy :: real
  psf_dx :: real
  psf_masked :: bool
  psf_switch :: bool
  kz3 :: "real list list list"
  ky3 :: "real list list list"
  kx3 :: "real list list list"
  k_cut :: real
  k_mask3 :: "bool list list list"
  psf_h :: "npfloat list list list"
  k_prop :: "npcomplex list list list"
  k_base :: "npcomplex list list list"
  k_rho :: "npfloat list list"
  k_phi :: "npfloat list list"
  k_mask2 :: "bool list list"

text \<open>
  \<^verbatim>\<open>PsfGenerator3D.__init__\<close>. The scalar arguments are Python floats, so
  \<^verbatim>\<open>na_detection / lam_detection\<close> raises ZeroDivisionError when the wavelength is
  zero; the divisions of arrays raise nothing. The entries of \<^verbatim>\<open>h\<close> and \<^verbatim>\<open>k_prop\<close>
  are those of exact real arithmetic here; their float64 values are the subject
  of the last subsection of the definitions.
\<close>

definition z_axis :: "int \<Rightarrow> real \<Rightarrow> real list" where
  "z_axis nz dz =
     (if nz mod 2 = 0
      then map (\<lambda>i. dz * (real_of_int i - (real_of_int nz - 1) / 2)) [0..nz - 1]
      else map (\<lambda>i. dz * (real_of_int i - real_of_int (nz div 2))) [0..nz - 1])"



text \<open>
  The \<^verbatim>\<open>phi\<close> argument of the PSF methods is a \<^verbatim>\<open>Zernike\<close> or a
  \<^verbatim>\<open>ZernikeWavefront\<close>; \<^verbatim>\<open>phi.phase\<close> is the method of its class.
\<close>

datatype phi = PhiZernike zernike | PhiWavefront wavefront

definition phi_phase ::
  "phi \<Rightarrow> npfloat list list \<Rightarrow> npfloat list list \<Rightarrow> bool \<Rightarrow> npfloat option \<Rightarrow> error + npfloat nd" where
  "phi_phase p rho theta normed outside =
     (case p of
        PhiZernike z \<Rightarrow> bindE (Zernike_phase z rho theta normed outside) (\<lambda>a. Inr (NdArray a))
      | PhiWavefront w \<Rightarrow> ZernikeWavefront_phase w rho theta normed outside)"

text \<open>
  A product of a two-dimensional array with a scalar takes the array's shape;
  a product of the stack with a two-dimensional array or a scalar repeats that
  factor for every \<open>z\<close>-slice.
\<close>

definition masked_phase :: "psf_generator \<Rightarrow> phi \<Rightarrow> bool \<Rightarrow> bool \<Rightarrow> error + npfloat nd" where
  "masked_phase g p normed masked =
     bindE (phi_phase p (k_rho g) (k_phi g) normed None) (\<lambda>ph.
       if masked
       then Inr (NdArray (case ph of
                   NdScalar c \<Rightarrow> map2d (\<lambda>b. fmul (of_bool_f b) c) (k_mask2 g)
                 | NdArray a \<Rightarrow> zip2d (\<lambda>b x. fmul (of_bool_f b) x) (k_mask2 g) a))
       else Inr ph)"

definition phase_factor :: "real \<Rightarrow> npfloat \<Rightarrow> npcomplex" where
  "phase_factor lam x = map_option (\<lambda>v. exp (2 * \<i> * of_real pi * of_real v / of_real lam)) x"

definition coherent_psf ::
  "psf_generator \<Rightarrow> phi \<Rightarrow> bool \<Rightarrow> bool \<Rightarrow> error + npcomplex list list list" where
  "coherent_psf g p normed masked =
     bindE (masked_phase g p normed masked) (\<lambda>ph.
       let ku = (case ph of
                   NdScalar c \<Rightarrow> map3d (\<lambda>b. cmul b (phase_factor (psf_lam_detection g) c)) (k_base g)
                 | NdArray a \<Rightarrow>
                     map (\<lambda>sl. zip2d (\<lambda>b x. cmul b (phase_factor (psf_lam_detection g) x)) sl a)
                         (k_base g))
       in Inr (my_ifftn ku))"

definition incoherent_psf ::
  "psf_generator \<Rightarrow> phi \<Rightarrow> bool \<Rightarrow> bool \<Rightarrow> error + npcomplex list list list" where
  "incoherent_psf g p normed masked =
     bindE (coherent_psf g p normed masked) (\<lambda>psf. Inr (my_ifftshift psf))"

definition incoherent_psf_abs ::
  "psf_generator \<Rightarrow> phi \<Rightarrow> bool \<Rightarrow> bool \<Rightarrow> error + npfloat list list list" where
  "incoherent_psf_abs g p normed masked =
     bindE (coherent_psf g p normed masked) (\<lambda>c.
       let psf = map3d (map_option (\<lambda>v. (cmod v)\<^sup>2)) c
       in Inr (my_ifftshift psf))"


subsection \<open>The defocus transfer stack in float64 arithmetic\<close>

text \<open>
  Which entries of \<^verbatim>\<open>k_prop\<close> are zero depends on how float64 arithmetic rounds,
  so the statements of \<^verbatim>\<open>PsfGenerator3D.__init__\<close> up to \<^verbatim>\<open>k_prop\<close> are modelled a
  second time, over float64 values: a finite value (a real number that float64
  represents), the two infinities, and NaN. The two zeros of IEEE 754 are one
  value here: the operations below give the same result on both, up to the
  sign of a zero result.
\<close>

datatype f64 = Fin real | PInf | NInf | NaN

text \<open>
  Rounding to nearest, ties to even. A real \<open>x\<close> is rounded on the grid whose
  step is \<open>2\<close> to the power \<open>ulp_exp x\<close>: 53 significant bits, and the fixed step
  \<open>2\<^sup>-\<^sup>1\<^sup>0\<^sup>7\<^sup>4\<close> in the subnormal range. A result of magnitude \<open>2\<^sup>1\<^sup>0\<^sup>2\<^sup>4\<close> or more
  overflows to an infinity.
\<close>

definition rne :: "real \<Rightarrow> int" where
  "rne q =
     (let f = \<lfloor>q\<rfloor>; d = q - of_int f
      in if d < 1 / 2 then f else if d > 1 / 2 then f + 1 else if even f then f else f + 1)"

definition ulp_exp :: "real \<Rightarrow> int" where
  "ulp_exp x = max \<lfloor>log 2 \<bar>x\<bar>\<rfloor> (- 1022) - 52"

definition f64_overflow :: real where
  "f64_overflow = 2 ^ 1024"

definition rnd :: "real \<Rightarrow> f64" where
  "rnd x =
     (if x = 0 then Fin 0
      else let u = 2 powr of_int (ulp_exp x);
               r = of_int (rne (x / u)) * u
           in if f64_overflow \<le> \<bar>r\<bar> then (if 0 < x then PInf else NInf) else Fin r)"

text \<open>
  The IEEE 754 operations: the exact result, rounded; NaN from a NaN operand,
  from \<open>inf - inf\<close>, \<open>0 * inf\<close>, \<open>0 / 0\<close>, \<open>inf / inf\<close> and the root of a negative
  number. A zero divisor counts as \<open>+0\<close>.
\<close>

definition f_sign :: "f64 \<Rightarrow> int" where
  "f_sign a =
     (case a of Fin x \<Rightarrow> (if 0 < x then 1 else if x < 0 then - 1 else 0) | PInf \<Rightarrow> 1
      | NInf \<Rightarrow> - 1 | NaN \<Rightarrow> 0)"

definition signed_inf :: "int \<Rightarrow> f64" where
  "signed_inf s = (if 0 < s then PInf else if s < 0 then NInf else NaN)"

definition f_neg :: "f64 \<Rightarrow> f64" where
  "f_neg a = (case a of Fin x \<Rightarrow> Fin (- x) | PInf \<Rightarrow> NInf | NInf \<Rightarrow> PInf | NaN \<Rightarrow> NaN)"

definition f_add :: "f64 \<Rightarrow> f64 \<Rightarrow> f64" where
  "f_add a b =
     (case (a, b) of
        (Fin x, Fin y) \<Rightarrow> rnd (x + y)
      | (Fin x, _) \<Rightarrow> b
      | (_, Fin y) \<Rightarrow> a
      | _ \<Rightarrow> if a = b then a else NaN)"

definition f_sub :: "f64 \<Rightarrow> f64 \<Rightarrow> f64" where
  "f_sub a b = f_add a (f_neg b)"

definition f_mul :: "f64 \<Rightarrow> f64 \<Rightarrow> f64" where
  "f_mul a b =
     (case (a, b) of
        (Fin x, Fin y) \<Rightarrow> rnd (x * y)
      | _ \<Rightarrow> if a = NaN \<or> b = NaN then NaN else signed_inf (f_sign a * f_sign b))"






definition z_axis64 :: "int \<Rightarrow> f64 \<Rightarrow> f64 list" where
  "z_axis64 nz dz =
     (if nz mod 2 = 0
      then map (\<lambda>i. f_mul dz (f_sub (rnd (of_int i)) (rnd ((of_int nz - 1) / 2)))) [0..nz - 1]
      else map (\<lambda>i. f_mul dz (rnd (of_int (i - nz div 2)))) [0..nz - 1])"








subsection \<open>Auxiliary notions for the proofs\<close>

text \<open>The triangular numbers, and the Noll index of a pair as a plain integer.\<close>

definition tri :: "int \<Rightarrow> int" where
  "tri n = (n * (n + 1)) div 2"

definition noll_of :: "int \<times> int \<Rightarrow> int" where
  "noll_of p = projr (nm_to_noll (fst p) (snd p))"

text \<open>
  Keys that are pairwise different under the dict's equality, an earlier key
  compared with a later one.
\<close>

fun keys_distinct :: "('k \<Rightarrow> 'k \<Rightarrow> bool) \<Rightarrow> ('k \<times> 'v) list \<Rightarrow> bool" where
  "keys_distinct eq [] = True"
| "keys_distinct eq (kv # d) = ((\<forall>kv'\<in>set d. \<not> eq (fst kv) (fst kv')) \<and> keys_distinct eq d)"

text \<open>The radial and angular coordinates of \<^verbatim>\<open>rho_theta(sz)\<close> as real numbers.\<close>

definition rho_grid :: "nat \<Rightarrow> real list list" where
  "rho_grid sz = map (\<lambda>y. map (\<lambda>x. hypot y x) (linspace (- 1) 1 sz)) (linspace (- 1) 1 sz)"

definition theta_grid :: "nat \<Rightarrow> real list list" where
  "theta_grid sz = map (\<lambda>y. map (\<lambda>x. arctan2 y x) (linspace (- 1) 1 sz)) (linspace (- 1) 1 sz)"

text \<open>
  Concrete objects used as examples: the modes \<open>(2, 0)\<close> and \<open>(0, 0)\<close> as the
  constructor builds them, the dict \<^verbatim>\<open>{(2, 0): 1.0, (0, 0): 2.0}\<close>, the wavefront
  of \<^verbatim>\<open>{(0, 0): 1.0}\<close>, and \<^verbatim>\<open>object.__setattr__\<close> on a wavefront for the
  assignments it is modelled at: a value of the attribute's own kind assigned
  to one of the four attributes the constructor creates. These are entries of
  the instance's \<^verbatim>\<open>__dict__\<close> (the class has no \<^verbatim>\<open>__slots__\<close> and no descriptor of
  these names), which \<^verbatim>\<open>object.__setattr__\<close> stores without raising; other names,
  such as \<^verbatim>\<open>__class__\<close>, are not in this type.
\<close>

definition defocus :: zernike where
  "defocus = \<lparr>z_n = 2, z_m = 0, z_index_noll = 4, z_index_ansi = 4,
              z_name = Some ''defocus'', z_mutable = False\<rparr>"

definition piston :: zernike where
  "piston = \<lparr>z_n = 0, z_m = 0, z_index_noll = 1, z_index_ansi = 0,
             z_name = Some ''piston'', z_mutable = False\<rparr>"

definition two_modes :: amplitudes where
  "two_modes = AmpDict [(IdxSeq [2, 0], Scalar (Some 1)), (IdxSeq [0, 0], Scalar (Some 2))]"

definition piston_wavefront :: wavefront where
  "piston_wavefront = \<lparr>zernikes = [(piston, Some 1)], amplitudes_noll = [Some 1],
       amplitudes_ansi = [Some 1], amplitudes_requested = [Some 1]\<rparr>"

datatype wavefront_assignment =
    AssignZernikes "(zernike \<times> npfloat) list"
  | AssignAmplitudesNoll "npfloat list"
  | AssignAmplitudesAnsi "npfloat list"
  | AssignAmplitudesRequested "npfloat list"

definition object_setattr :: "wavefront \<Rightarrow> wavefront_assignment \<Rightarrow> error option \<times> wavefront" where
  "object_setattr w assignment =
     (case assignment of
        AssignZernikes v \<Rightarrow> (None, w\<lparr>zernikes := v\<rparr>)
      | AssignAmplitudesNoll v \<Rightarrow> (None, w\<lparr>amplitudes_noll := v\<rparr>)
      | AssignAmplitudesAnsi v \<Rightarrow> (None, w\<lparr>amplitudes_ansi := v\<rparr>)
      | AssignAmplitudesRequested v \<Rightarrow> (None, w\<lparr>amplitudes_requested := v\<rparr>))"


definition grid2 :: "'a list \<Rightarrow> 'b list \<Rightarrow> ('a \<Rightarrow> 'b \<Rightarrow> 'c) \<Rightarrow> 'c list list" where
  "grid2 a b g = map (\<lambda>y. map (\<lambda>x. g y x) b) a"


text \<open>
  One entry of the array \<^verbatim>\<open>nm_polynomial\<close> returns, and the sum of a list of
  numbers in list order.
\<close>

definition nm_entry :: "int \<Rightarrow> int \<Rightarrow> bool \<Rightarrow> npfloat \<Rightarrow> npfloat \<Rightarrow> npfloat" where
  "nm_entry zn zm normed r t =
     (if (zn - \<bar>zm\<bar>) mod 2 = 1 then fadd (fmul (Some 0) r) (fmul (Some 0) t)
      else nm_polynomial_pt zn zm normed r t)"

fun fsum :: "npfloat list \<Rightarrow> npfloat" where
  "fsum [] = Some 0"
| "fsum (x # xs) = foldl fadd x xs"



definition two_modes_wavefront :: wavefront where
  "two_modes_wavefront =
     \<lparr>zernikes = [(defocus, Some 1), (piston, Some 2)],
      amplitudes_noll = [Some 2, Some 0, Some 0, Some 1],
      amplitudes_ansi = [Some 2, Some 0, Some 0, Some 0, Some 1],
      amplitudes_requested = [Some 2, Some 1]\<rparr>"










subsection \<open>Facts about the index translation\<close>

lemma set_nm_pairs_upto: "set (nm_pairs_upto N) = {p. valid_nm N p}"
proof (rule set_eqI)
  fix p :: "int \<times> int"
  obtain n m where p: "p = (n, m)" by (cases p)
  have "(n, m) \<in> set (nm_pairs_upto N) \<longleftrightarrow> (0 \<le> n \<and> n \<le> N - 1 \<and> (\<exists>k. 0 \<le> k \<and> k \<le> n \<and> m = 2 * k - n))"
    by (force simp: nm_pairs_upto_def)
  also have "\<dots> \<longleftrightarrow> valid_nm N (n, m)"
  proof
    assume "0 \<le> n \<and> n \<le> N - 1 \<and> (\<exists>k. 0 \<le> k \<and> k \<le> n \<and> m = 2 * k - n)"
    then show "valid_nm N (n, m)" by (auto simp: valid_nm_def)
  next
    assume v: "valid_nm N (n, m)"
    then have "even (n + m)" by (simp add: valid_nm_def)
    then obtain k where k: "n + m = 2 * k" by (elim evenE)
    with v have "0 \<le> k \<and> k \<le> n \<and> m = 2 * k - n" by (auto simp: valid_nm_def)
    with v show "0 \<le> n \<and> n \<le> N - 1 \<and> (\<exists>k. 0 \<le> k \<and> k \<le> n \<and> m = 2 * k - n)"
      by (auto simp: valid_nm_def)
  qed
  finally show "p \<in> set (nm_pairs_upto N) \<longleftrightarrow> p \<in> {p. valid_nm N p}" by (simp add: p)
qed

lemma tri_step: "tri (n + 1) = tri n + n + 1"
proof -
  have "even (n * (n + 1))" by simp
  then obtain k where k: "n * (n + 1) = 2 * k" by (elim evenE)
  have "(n + 1) * (n + 1 + 1) = 2 * (k + n + 1)" using k by (simp add: algebra_simps)
  then show ?thesis using k by (simp add: tri_def)
qed

lemma tri_mono: "0 \<le> a \<Longrightarrow> a \<le> b \<Longrightarrow> tri a \<le> tri b"
  unfolding tri_def by (intro zdiv_mono1 mult_mono) auto

lemma tri_window:
  assumes "0 \<le> n" "0 \<le> n'" "tri n < x" "x \<le> tri n + n + 1" "tri n' < x" "x \<le> tri n' + n' + 1"
  shows "n = n'"
proof (rule ccontr)
  assume "n \<noteq> n'"
  then consider "n + 1 \<le> n'" | "n' + 1 \<le> n" by linarith
  then show False
  proof cases
    case 1
    then have "tri (n + 1) \<le> tri n'" using assms(1) by (intro tri_mono) auto
    then show False using assms tri_step[of n] by linarith
  next
    case 2
    then have "tri (n' + 1) \<le> tri n" using assms(2) by (intro tri_mono) auto
    then show False using assms tri_step[of n'] by linarith
  qed
qed

lemma nm_to_noll_total: "\<exists>j. nm_to_noll n m = Inr j"
proof -
  have "n mod 4 \<in> {0, 1, 2, 3}" by (simp; presburger)
  then show ?thesis by (auto simp: nm_to_noll_def Let_def)
qed

lemma nm_to_noll_window:
  assumes "0 \<le> n" "\<bar>m\<bar> \<le> n" "even (n - m)" "nm_to_noll n m = Inr j"
  shows "tri n < j \<and> j \<le> tri n + n + 1"
proof -
  have m0: "m = 0 \<Longrightarrow> n mod 4 \<in> {0, 2}" using assms(3) by (simp; presburger)
  show ?thesis
    using assms m0 unfolding nm_to_noll_def Let_def tri_def
    by (auto split: if_splits)
qed

lemma nm_to_ansi_tri:
  assumes "even (n - m)"
  shows "nm_to_ansi n m = tri n + (n + m) div 2"
proof -
  have "even (n * (n + 1))" by simp
  then obtain k where k: "n * (n + 1) = 2 * k" by (elim evenE)
  have "even (n + m)" using assms by simp
  then obtain l where l: "n + m = 2 * l" by (elim evenE)
  have "n * (n + 2) + m = 2 * (k + l)" using k l by (simp add: algebra_simps)
  then show ?thesis using k l by (simp add: nm_to_ansi_def tri_def)
qed

lemma nm_to_noll_inj:
  assumes "0 \<le> n" "\<bar>m\<bar> \<le> n" "even (n - m)" "0 \<le> n'" "\<bar>m'\<bar> \<le> n'" "even (n' - m')"
    and "nm_to_noll n m = nm_to_noll n' m'"
  shows "n = n' \<and> m = m'"
proof -
  obtain j where j: "nm_to_noll n m = Inr j" using nm_to_noll_total by blast
  then have j': "nm_to_noll n' m' = Inr j" using assms(7) by simp
  have n: "n = n'"
    using nm_to_noll_window[OF assms(1-3) j] nm_to_noll_window[OF assms(4-6) j']
    by (intro tri_window[OF assms(1) assms(4), of j]) auto
  have par: "even (m - m')" using assms(3,6) n by simp
  have "m = m'"
    using j j' par unfolding n nm_to_noll_def Let_def
    by (auto split: if_splits) presburger+
  with n show ?thesis by simp
qed

lemma nm_to_ansi_inj:
  assumes "0 \<le> n" "\<bar>m\<bar> \<le> n" "even (n - m)" "0 \<le> n'" "\<bar>m'\<bar> \<le> n'" "even (n' - m')"
    and "nm_to_ansi n m = nm_to_ansi n' m'"
  shows "n = n' \<and> m = m'"
proof -
  define x where "x = nm_to_ansi n m + 1"
  have e1: "even (n + m)" and e2: "even (n' + m')" using assms(3,6) by simp_all
  have a: "x = tri n + (n + m) div 2 + 1" by (simp add: x_def nm_to_ansi_tri[OF assms(3)])
  have b: "x = tri n' + (n' + m') div 2 + 1" by (simp add: x_def assms(7) nm_to_ansi_tri[OF assms(6)])
  have n: "n = n'"
  proof (rule tri_window[OF assms(1) assms(4), of x])
    show "tri n < x" "x \<le> tri n + n + 1" using a assms(1,2) by (simp; linarith)+
    show "tri n' < x" "x \<le> tri n' + n' + 1" using b assms(4,5) by (simp; linarith)+
  qed
  have "(n + m) div 2 = (n + m') div 2" using a b n by simp
  then have "m = m'" using e1 e2 n by presburger
  with n show ?thesis by simp
qed

lemma build_table_char:
  assumes "\<forall>p\<in>set ps. f (fst p) (snd p) = Inr (g p)" "inj_on g (set ps)"
  shows "build_table f ps d =
           Inr (\<lambda>k. if k \<in> g ` set ps then Some (the_inv_into (set ps) g k) else d k)"
  using assms
proof (induction ps arbitrary: d)
  case Nil
  then show ?case by simp
next
  case (Cons p ps)
  have inj: "inj_on g (set ps)" using Cons.prems(2) by (simp add: inj_on_def)
  have fp: "f (fst p) (snd p) = Inr (g p)" using Cons.prems(1) by simp
  have IH: "build_table f ps (d(g p \<mapsto> p)) =
      Inr (\<lambda>k. if k \<in> g ` set ps then Some (the_inv_into (set ps) g k) else (d(g p \<mapsto> p)) k)"
    using Cons.prems(1) inj by (intro Cons.IH) auto
  have "(\<lambda>k. if k \<in> g ` set ps then Some (the_inv_into (set ps) g k) else (d(g p \<mapsto> p)) k)
      = (\<lambda>k. if k \<in> g ` set (p # ps) then Some (the_inv_into (set (p # ps)) g k) else d k)"
  proof (rule ext)
    fix k
    show "(if k \<in> g ` set ps then Some (the_inv_into (set ps) g k) else (d(g p \<mapsto> p)) k)
        = (if k \<in> g ` set (p # ps) then Some (the_inv_into (set (p # ps)) g k) else d k)"
    proof (cases "k \<in> g ` set ps")
      case True
      then obtain q where q: "q \<in> set ps" "k = g q" by auto
      have "the_inv_into (set ps) g (g q) = q" using inj q(1) by (rule the_inv_into_f_f)
      moreover have "the_inv_into (set (p # ps)) g (g q) = q"
        using Cons.prems(2) q(1) by (intro the_inv_into_f_f) auto
      ultimately show ?thesis using True q by simp
    next
      case False
      show ?thesis
      proof (cases "k = g p")
        case True
        have "the_inv_into (set (p # ps)) g (g p) = p"
          using Cons.prems(2) by (intro the_inv_into_f_f) auto
        then show ?thesis using False True by simp
      next
        case False': False
        then show ?thesis using False by simp
      qed
    qed
  qed
  then show ?case using fp IH by simp
qed

lemma build_table_perm:
  assumes "\<forall>p\<in>set ps. f (fst p) (snd p) = Inr (g p)" "inj_on g (set ps)" "set qs = set ps"
  shows "build_table f qs d = build_table f ps d"
proof -
  have "build_table f qs d =
          Inr (\<lambda>k. if k \<in> g ` set qs then Some (the_inv_into (set qs) g k) else d k)"
    using assms by (intro build_table_char) simp_all
  then have "build_table f qs d =
          Inr (\<lambda>k. if k \<in> g ` set ps then Some (the_inv_into (set ps) g k) else d k)"
    unfolding assms(3) .
  moreover have "build_table f ps d =
          Inr (\<lambda>k. if k \<in> g ` set ps then Some (the_inv_into (set ps) g k) else d k)"
    using assms by (intro build_table_char) simp_all
  ultimately show ?thesis by simp
qed

lemma nm_to_noll_noll_of: "nm_to_noll (fst p) (snd p) = Inr (noll_of p)"
  using nm_to_noll_total[of "fst p" "snd p"] by (auto simp: noll_of_def)

lemma inj_on_noll_of: "inj_on noll_of {p. valid_nm N p}"
proof (rule inj_onI)
  fix p q assume p: "p \<in> {p. valid_nm N p}" and q: "q \<in> {p. valid_nm N p}"
    and e: "noll_of p = noll_of q"
  have "nm_to_noll (fst p) (snd p) = nm_to_noll (fst q) (snd q)"
    by (simp add: nm_to_noll_noll_of e)
  then have "fst p = fst q \<and> snd p = snd q"
    using p q by (intro nm_to_noll_inj) (simp_all add: valid_nm_def)
  then show "p = q" by (simp add: prod_eq_iff)
qed

lemma inj_on_ansi: "inj_on (\<lambda>p. nm_to_ansi (fst p) (snd p)) {p. valid_nm N p}"
proof (rule inj_onI)
  fix p q assume p: "p \<in> {p. valid_nm N p}" and q: "q \<in> {p. valid_nm N p}"
    and e: "nm_to_ansi (fst p) (snd p) = nm_to_ansi (fst q) (snd q)"
  have "fst p = fst q \<and> snd p = snd q"
    using p q e by (intro nm_to_ansi_inj) (simp_all add: valid_nm_def)
  then show "p = q" by (simp add: prod_eq_iff)
qed

lemma noll_to_nm_char:
  "noll_to_nm = Inr (\<lambda>k. if k \<in> noll_of ` {p. valid_nm 200 p}
                         then Some (the_inv_into {p. valid_nm 200 p} noll_of k) else None)"
proof -
  have s: "set (nm_pairs_upto 200) = {p. valid_nm 200 p}" by (rule set_nm_pairs_upto)
  have "build_table nm_to_noll (nm_pairs_upto 200) Map.empty =
          Inr (\<lambda>k. if k \<in> noll_of ` set (nm_pairs_upto 200)
                   then Some (the_inv_into (set (nm_pairs_upto 200)) noll_of k) else None)"
    by (rule build_table_char) (simp_all add: s nm_to_noll_noll_of inj_on_noll_of)
  then show ?thesis unfolding noll_to_nm_def nm_pairs_def s .
qed

lemma ansi_to_nm_char:
  "ansi_to_nm = Inr (\<lambda>k. if k \<in> (\<lambda>p. nm_to_ansi (fst p) (snd p)) ` {p. valid_nm 200 p}
                         then Some (the_inv_into {p. valid_nm 200 p} (\<lambda>p. nm_to_ansi (fst p) (snd p)) k)
                         else None)"
proof -
  have s: "set (nm_pairs_upto 200) = {p. valid_nm 200 p}" by (rule set_nm_pairs_upto)
  have "build_table (\<lambda>n m. Inr (nm_to_ansi n m)) (nm_pairs_upto 200) Map.empty =
          Inr (\<lambda>k. if k \<in> (\<lambda>p. nm_to_ansi (fst p) (snd p)) ` set (nm_pairs_upto 200)
                   then Some (the_inv_into (set (nm_pairs_upto 200)) (\<lambda>p. nm_to_ansi (fst p) (snd p)) k)
                   else None)"
    by (rule build_table_char) (simp_all add: s inj_on_ansi)
  then show ?thesis unfolding ansi_to_nm_def nm_pairs_def s .
qed

lemma noll_lookup_valid:
  assumes "valid_nm 200 p"
  shows "table_lookup noll_to_nm (noll_of p) = Inr p"
proof -
  have "the_inv_into {p. valid_nm 200 p} noll_of (noll_of p) = p"
    using inj_on_noll_of assms by (intro the_inv_into_f_f) auto
  then show ?thesis using assms by (simp add: table_lookup_def bindE_def noll_to_nm_char)
qed

lemma ansi_lookup_valid:
  assumes "valid_nm 200 p"
  shows "table_lookup ansi_to_nm (nm_to_ansi (fst p) (snd p)) = Inr p"
proof -
  have "the_inv_into {p. valid_nm 200 p} (\<lambda>p. nm_to_ansi (fst p) (snd p)) (nm_to_ansi (fst p) (snd p)) = p"
    using inj_on_ansi[of 200] assms by (intro the_inv_into_f_f) auto
  then show ?thesis using assms by (simp add: table_lookup_def bindE_def ansi_to_nm_char)
qed

lemma noll_lookup_Inr:
  assumes "table_lookup noll_to_nm j = Inr p"
  shows "valid_nm 200 p \<and> noll_of p = j"
proof -
  have in_img: "j \<in> noll_of ` {p. valid_nm 200 p}" and p: "p = the_inv_into {p. valid_nm 200 p} noll_of j"
    using assms by (auto simp: table_lookup_def bindE_def noll_to_nm_char split: if_splits)
  then obtain q where q: "valid_nm 200 q" "j = noll_of q" by auto
  have "the_inv_into {p. valid_nm 200 p} noll_of (noll_of q) = q"
    using inj_on_noll_of q(1) by (intro the_inv_into_f_f) auto
  then show ?thesis using p q by simp
qed

lemma ansi_lookup_Inr:
  assumes "table_lookup ansi_to_nm j = Inr p"
  shows "valid_nm 200 p \<and> nm_to_ansi (fst p) (snd p) = j"
proof -
  let ?g = "\<lambda>p. nm_to_ansi (fst p) (snd p)"
  have in_img: "j \<in> ?g ` {p. valid_nm 200 p}" and p: "p = the_inv_into {p. valid_nm 200 p} ?g j"
    using assms by (auto simp: table_lookup_def bindE_def ansi_to_nm_char split: if_splits)
  then obtain q where q: "valid_nm 200 q" "j = ?g q" by auto
  have "the_inv_into {p. valid_nm 200 p} ?g (?g q) = q"
    using inj_on_ansi[of 200] q(1) by (intro the_inv_into_f_f) auto
  then show ?thesis using p q by simp
qed

subsection \<open>Facts about the classes\<close>

lemma noll_to_nm_ok: "\<exists>t. noll_to_nm = Inr t"
  by (simp add: noll_to_nm_char)

lemma ansi_to_nm_ok: "\<exists>t. ansi_to_nm = Inr t"
  by (simp add: ansi_to_nm_char)

lemma bindE_Inr [simp]: "bindE (Inr v) f = f v"
  by (simp add: bindE_def)

lemma bindE_Inl [simp]: "bindE (Inl e) f = Inl e"
  by (simp add: bindE_def)

lemma lookup_noll_4: "table_lookup noll_to_nm 4 = Inr (2, 0)"
  using noll_lookup_valid[of "(2, 0)"] nm_to_noll_noll_of[of "(2, 0)"]
  by (simp add: valid_nm_def nm_to_noll_def)

lemma lookup_ansi_4: "table_lookup ansi_to_nm 4 = Inr (2, 0)"
  using ansi_lookup_valid[of "(2, 0)"] by (simp add: valid_nm_def nm_to_ansi_def)

lemma mem_nm_pairs: "p \<in> set nm_pairs \<longleftrightarrow> valid_nm 200 p"
  by (simp add: nm_pairs_def set_nm_pairs_upto)

lemma str_lower_noll: "str_lower ''noll'' = ''noll''"
  by (simp add: str_lower_def lower_char_def)

lemma str_lower_ansi: "str_lower ''ansi'' = ''ansi''"
  by (simp add: str_lower_def lower_char_def)

lemma str_lower_defocus: "str_lower ''defocus'' = ''defocus''"
  by (simp add: str_lower_def lower_char_def)

lemma isdigit_defocus: "\<not> str_isdigit ''defocus''"
  by (simp add: str_isdigit_def is_digit_char_def)

lemma index_defocus: "list_index ansi_names ''defocus'' = Inr 4"
  by (simp add: ansi_names_def)

lemma name_4: "py_get ansi_names 4 = Inr ''defocus''"
  by (simp add: ansi_names_def py_get_def)

lemma Zernike_init_finish:
  assumes "Zernike_resolve_str index order = Inr (index', order')"
    and "Zernike_resolve_nm index' order' = Inr (n, m)"
  shows "Zernike_init index order =
     bindE (nm_to_noll n m) (\<lambda>j_noll.
       let j_ansi = nm_to_ansi n m in
       bindE (if j_ansi < int (length ansi_names)
              then bindE (py_get ansi_names j_ansi) (\<lambda>s. Inr (Some s))
              else Inr None) (\<lambda>nm.
         Inr \<lparr>z_n = n, z_m = m, z_index_noll = j_noll, z_index_ansi = j_ansi,
              z_name = nm, z_mutable = False\<rparr>))"
proof -
  obtain t where t: "noll_to_nm = Inr t" using noll_to_nm_ok by blast
  obtain u where u: "ansi_to_nm = Inr u" using ansi_to_nm_ok by blast
  show ?thesis by (simp add: Zernike_init_def t u assms)
qed

lemma defocus_init:
  "Zernike_init (IdxInt 4) ''noll'' = Inr defocus
   \<and> Zernike_init (IdxSeq [2, 0]) ''noll'' = Inr defocus
   \<and> Zernike_init (IdxStr ''defocus'') ''noll'' = Inr defocus"
proof -
  have fin: "bindE (nm_to_noll 2 0) (\<lambda>j_noll.
       let j_ansi = nm_to_ansi 2 0 in
       bindE (if j_ansi < int (length ansi_names)
              then bindE (py_get ansi_names j_ansi) (\<lambda>s. Inr (Some s))
              else Inr None) (\<lambda>nm.
         Inr \<lparr>z_n = 2, z_m = 0, z_index_noll = j_noll, z_index_ansi = j_ansi,
              z_name = nm, z_mutable = False\<rparr>)) = Inr defocus"
    by (simp add: nm_to_noll_def nm_to_ansi_def name_4 defocus_def) (simp add: ansi_names_def)
  have a: "Zernike_init (IdxInt 4) ''noll'' = Inr defocus"
    by (subst Zernike_init_finish[where index'="IdxInt 4" and order'="''noll''" and n=2 and m=0])
       (simp_all add: Zernike_resolve_str_def Zernike_resolve_nm_def str_lower_noll lookup_noll_4 fin)
  have b: "Zernike_init (IdxSeq [2, 0]) ''noll'' = Inr defocus"
    by (subst Zernike_init_finish[where index'="IdxSeq [2, 0]" and order'="''noll''" and n=2 and m=0])
       (simp_all add: Zernike_resolve_str_def Zernike_resolve_nm_def mem_nm_pairs valid_nm_def fin)
  have c: "Zernike_init (IdxStr ''defocus'') ''noll'' = Inr defocus"
    by (subst Zernike_init_finish[where index'="IdxInt 4" and order'="''ansi''" and n=2 and m=0])
       (simp_all add: Zernike_resolve_str_def Zernike_resolve_nm_def isdigit_defocus str_lower_defocus
          index_defocus str_lower_ansi lookup_ansi_4 fin, simp add: ansi_names_def)
  show ?thesis using a b c by simp
qed

lemma roll_map: "roll k (map f xs) = map f (roll k xs)"
  by (simp add: roll_def Let_def drop_map take_map)

lemma fftshift_map: "fftshift (map f xs) = map f (fftshift xs)"
  by (simp add: fftshift_def roll_map)

lemma my_ifftshift_map3d: "my_ifftshift (map3d f x) = map3d f (my_ifftshift x)"
  by (simp add: my_ifftshift_def map3d_def fftshift_map)

lemma Zernike_init_immutable:
  assumes "Zernike_init index order = Inr z"
  shows "\<not> z_mutable z"
  using assms unfolding Zernike_init_def bindE_def
  by (auto split: sum.splits prod.splits if_splits simp: Let_def)

lemma nm_polynomial_pt_00:
  "nm_polynomial_pt 0 0 False (Some r) (Some t) = Some (if r \<le> 1 then 1 else 0)"
  by (simp add: nm_polynomial_pt_def radial_sum_def radial_term_def prefac_def fmul_def fadd_def
      lift2_def fpow_def of_bool_f_def fle_def)

lemma nm_polynomial_00:
  "nm_polynomial 0 0 (map2d Some rho) (map2d Some theta) False =
     Inr (zip2d (\<lambda>r t. Some (if r \<le> 1 then 1 else 0)) rho theta)"
proof -
  have "zip2d (nm_polynomial_pt 0 0 False) (map2d Some rho) (map2d Some theta)
      = zip2d (\<lambda>r t. Some (if r \<le> 1 then 1 else 0)) rho theta"
    unfolding zip2d_def map2d_def
    by (simp add: zip_map_map nm_polynomial_pt_00 case_prod_unfold)
  then show ?thesis by (simp add: nm_polynomial_def)
qed

lemma set_dict_set_keys:
  "kv' \<in> set (dict_set eq d k v) \<Longrightarrow> fst kv' \<in> fst ` set d \<or> (fst kv' = k \<and> (\<forall>kv\<in>set d. \<not> eq (fst kv) k))"
proof (induction d)
  case Nil
  then show ?case by simp
next
  case (Cons x d)
  obtain k1 v1 where x: "x = (k1, v1)" by (cases x)
  show ?case
  proof (cases "eq k1 k")
    case True
    then show ?thesis using Cons.prems by (auto simp: x)
  next
    case False
    show ?thesis
    proof (cases "kv' = (k1, v1)")
      case True
      then show ?thesis by (simp add: x)
    next
      case neq: False
      then have "kv' \<in> set (dict_set eq d k v)" using Cons.prems False by (simp add: x)
      from Cons.IH[OF this] show ?thesis using False by (auto simp: x)
    qed
  qed
qed

lemma keys_distinct_dict_set:
  "keys_distinct eq d \<Longrightarrow> keys_distinct eq (dict_set eq d k v)"
proof (induction d)
  case Nil
  then show ?case by simp
next
  case (Cons kv d)
  obtain k1 v1 where kv: "kv = (k1, v1)" by (cases kv)
  show ?case
  proof (cases "eq k1 k")
    case True
    then show ?thesis using Cons.prems by (simp add: kv)
  next
    case False
    have "\<not> eq k1 (fst kv')" if "kv' \<in> set (dict_set eq d k v)" for kv'
      using set_dict_set_keys[OF that] Cons.prems False by (auto simp: kv)
    then show ?thesis using Cons False by (simp add: kv)
  qed
qed

lemma keys_distinct_build_zernikes:
  "build_zernikes order items d = Inr zs \<Longrightarrow> keys_distinct Zernike_eq d \<Longrightarrow> keys_distinct Zernike_eq zs"
proof (induction items arbitrary: d)
  case Nil
  then show ?case by simp
next
  case (Cons ja items)
  obtain j a where ja: "ja = (j, a)" by (cases ja)
  from Cons.prems(1) obtain z where z: "Zernike_init j order = Inr z"
    and r: "build_zernikes order items (dict_set Zernike_eq d z a) = Inr zs"
    by (cases "Zernike_init j order") (simp_all add: ja)
  show ?case using Cons.IH[OF r] keys_distinct_dict_set[OF Cons.prems(2)] by simp
qed

lemma dict_get_member:
  assumes "keys_distinct eq d" "\<And>k. eq k k" "kv \<in> set d"
  shows "dict_get eq d (fst kv) = Inr (snd kv)"
  using assms(1,3)
proof (induction d)
  case Nil
  then show ?case by simp
next
  case (Cons x d)
  obtain k1 v1 where x: "x = (k1, v1)" by (cases x)
  show ?case
  proof (cases "kv = x")
    case True
    then show ?thesis using assms(2) by (simp add: x)
  next
    case False
    then have m: "kv \<in> set d" using Cons.prems(2) by simp
    then have "\<not> eq k1 (fst kv)" using Cons.prems(1) by (auto simp: x)
    then show ?thesis using Cons.IH m Cons.prems(1) by (simp add: x)
  qed
qed

lemma map_err_dict_get:
  assumes "keys_distinct eq d" "\<And>k. eq k k" "set ys \<subseteq> set d"
  shows "map_err (dict_get eq d) (map fst ys) = Inr (map snd ys)"
  using assms(3)
proof (induction ys)
  case Nil
  then show ?case by simp
next
  case (Cons y ys)
  have "dict_get eq d (fst y) = Inr (snd y)"
    using Cons.prems by (intro dict_get_member[OF assms(1,2)]) simp
  then show ?case using Cons by simp
qed

lemma insort_key_map_fst:
  "insort_key f (fst x) (map fst xs) = map fst (insort_key (\<lambda>p. f (fst p)) x xs)"
  by (induction xs) simp_all

lemma sort_key_map_fst: "sort_key f (map fst xs) = map fst (sort_key (\<lambda>p. f (fst p)) xs)"
  by (induction xs) (simp_all add: insort_key_map_fst)

lemma Zernike_init_piston: "Zernike_init (IdxSeq [0, 0]) order = Inr piston"
  by (subst Zernike_init_finish[where index'="IdxSeq [0, 0]" and order'=order and n=0 and m=0])
     (simp_all add: Zernike_resolve_str_def Zernike_resolve_nm_def mem_nm_pairs valid_nm_def
        nm_to_noll_def nm_to_ansi_def piston_def py_get_def ansi_names_def)

lemma Zernike_init_defocus: "Zernike_init (IdxSeq [2, 0]) order = Inr defocus"
  by (subst Zernike_init_finish[where index'="IdxSeq [2, 0]" and order'=order and n=2 and m=0])
     (simp_all add: Zernike_resolve_str_def Zernike_resolve_nm_def mem_nm_pairs valid_nm_def
        nm_to_noll_def nm_to_ansi_def defocus_def py_get_def ansi_names_def)

lemma two_modes_init:
  "ZernikeWavefront_init two_modes order =
     Inr \<lparr>zernikes = [(defocus, Some 1), (piston, Some 2)],
          amplitudes_noll = [Some 2, Some 0, Some 0, Some 1],
          amplitudes_ansi = [Some 2, Some 0, Some 0, Some 0, Some 1],
          amplitudes_requested = [Some 2, Some 1]\<rparr>"
proof -
  have ne: "\<not> Zernike_eq defocus piston" by (simp add: Zernike_eq_def defocus_def piston_def)
  have e1: "Zernike_eq defocus defocus" "Zernike_eq piston piston" by (simp_all add: Zernike_eq_def)
  have f: "z_index_noll defocus = 4" "z_index_ansi defocus = 4"
    "z_index_noll piston = 1" "z_index_ansi piston = 0"
    by (simp_all add: defocus_def piston_def)
  have l1: "dict_to_list [(4, Some 1), (1, Some 2)] = Inr [Some 0, Some 2, Some 0, Some 0, Some 1]"
    by (simp add: dict_to_list_def py_set_def numeral_eq_Suc)
  have l2: "dict_to_list [(4, Some 1), (0, Some 2)] = Inr [Some 2, Some 0, Some 0, Some 0, Some 1]"
    by (simp add: dict_to_list_def py_set_def numeral_eq_Suc)
  show ?thesis
    by (simp add: ZernikeWavefront_init_def two_modes_def ensure_dict_def Zernike_init_defocus
        Zernike_init_piston ne e1 f l1 l2)
qed

lemma map2_map_same: "map2 f (map g xs) (map h xs) = map (\<lambda>x. f (g x) (h x)) xs"
  by (induction xs) simp_all

lemma map2_map_left: "map2 f (map g xs) xs = map (\<lambda>x. f (g x) x) xs"
  by (induction xs) simp_all

lemma zip2d_meshgrid2:
  "zip2d f (fst (meshgrid2 a b)) (snd (meshgrid2 a b)) = map (\<lambda>y. map (\<lambda>x. f y x) b) a"
  by (simp add: zip2d_def meshgrid2_def map2_map_same map2_map_left)

lemma rho_theta_grids: "rho_theta sz = (map2d Some (rho_grid sz), map2d Some (theta_grid sz))"
  using zip2d_meshgrid2[of "\<lambda>a b. Some (hypot a b)" "linspace (- 1) 1 sz" "linspace (- 1) 1 sz"]
    zip2d_meshgrid2[of "\<lambda>a b. Some (arctan2 a b)" "linspace (- 1) 1 sz" "linspace (- 1) 1 sz"]
  by (simp add: rho_theta_def Let_def case_prod_unfold rho_grid_def theta_grid_def map2d_def o_def)

lemma zip2d_grids:
  "zip2d f (rho_grid sz) (theta_grid sz)
     = map (\<lambda>y. map (\<lambda>x. f (hypot y x) (arctan2 y x)) (linspace (- 1) 1 sz)) (linspace (- 1) 1 sz)"
  by (simp add: zip2d_def rho_grid_def theta_grid_def map2_map_same)

lemma outside_mask_grid: "outside_mask sz = Inr (map2d (\<lambda>r. 1 < r) (rho_grid sz))"
proof -
  have "map2d (\<lambda>v. flt v 1) (zip2d (\<lambda>r t. Some (if r \<le> 1 then 1 else 0)) (rho_grid sz) (theta_grid sz))
      = map2d (\<lambda>r. 1 < r) (rho_grid sz)"
    by (simp add: zip2d_grids) (simp add: map2d_def rho_grid_def flt_def o_def)
  then show ?thesis
    by (simp add: outside_mask_def rho_theta_grids nm_polynomial_00)
qed

lemma piston_wavefront_init:
  "ZernikeWavefront_init (AmpDict [(IdxSeq [0, 0], Scalar (Some 1))]) order = Inr piston_wavefront"
proof -
  have e1: "Zernike_eq piston piston" by (simp add: Zernike_eq_def)
  have f: "z_index_noll piston = 1" "z_index_ansi piston = 0" by (simp_all add: piston_def)
  have l1: "dict_to_list [(1, Some 1)] = Inr [Some 0, Some 1]"
    by (simp add: dict_to_list_def py_set_def numeral_eq_Suc)
  have l2: "dict_to_list [(0, Some 1)] = Inr [Some 1]"
    by (simp add: dict_to_list_def py_set_def)
  show ?thesis
    by (simp add: ZernikeWavefront_init_def ensure_dict_def Zernike_init_piston e1 f l1 l2
        piston_wavefront_def)
qed

subsection \<open>Facts about the arrays and the PSF generator\<close>


lemma meshgrid2_grid2: "meshgrid2 a b = (grid2 a b (\<lambda>y x. y), grid2 a b (\<lambda>y x. x))"
  by (simp add: meshgrid2_def grid2_def)



lemma zip2d_grid2:
  "zip2d f (grid2 a b g) (grid2 a b h) = grid2 a b (\<lambda>y x. f (g y x) (h y x))"
  by (simp add: zip2d_def grid2_def map2_map_same)

lemma map2d_grid2: "map2d f (grid2 a b g) = grid2 a b (\<lambda>y x. f (g y x))"
  by (simp add: map2d_def grid2_def o_def)


lemma grid2_nth:
  "i < length a \<Longrightarrow> j < length b \<Longrightarrow> grid2 a b g ! i ! j = g (a ! i) (b ! j)"
  by (simp add: grid2_def)

lemma length_roll [simp]: "length (roll k xs) = length xs"
  by (auto simp: roll_def Let_def)

lemma length_fftshift [simp]: "length (fftshift xs) = length xs"
  by (simp add: fftshift_def)

lemma length_z_axis [simp]: "length (z_axis nz dz) = nat nz"
  by (simp add: z_axis_def)

lemma fftfreq_length: "fftfreq n d = Inr f \<Longrightarrow> length f = nat n"
  by (auto simp: fftfreq_def Let_def split: if_splits)





lemma nm_polynomial_entry:
  "nm_polynomial zn zm rho theta normed =
     (if \<bar>zm\<bar> > zn then Inl ValueError else Inr (zip2d (nm_entry zn zm normed) rho theta))"
proof -
  have "nm_entry zn zm normed = (\<lambda>r t. fadd (fmul (Some 0) r) (fmul (Some 0) t))"
    if "(zn - \<bar>zm\<bar>) mod 2 = 1"
    using that by (intro ext) (simp add: nm_entry_def)
  moreover have "nm_entry zn zm normed = nm_polynomial_pt zn zm normed"
    if "(zn - \<bar>zm\<bar>) mod 2 \<noteq> 1"
    using that by (intro ext) (simp add: nm_entry_def)
  ultimately show ?thesis by (simp add: nm_polynomial_def Let_def)
qed

lemma rho_theta_grid2:
  "rho_theta sz = (grid2 (linspace (- 1) 1 sz) (linspace (- 1) 1 sz) (\<lambda>y x. Some (hypot y x)),
                   grid2 (linspace (- 1) 1 sz) (linspace (- 1) 1 sz) (\<lambda>y x. Some (arctan2 y x)))"
  by (simp add: rho_theta_def Let_def meshgrid2_grid2 zip2d_grid2)

lemma outside_mask_grid2:
  "outside_mask sz = Inr (grid2 (linspace (- 1) 1 sz) (linspace (- 1) 1 sz) (\<lambda>y x. 1 < hypot y x))"
proof -
  have "flt (nm_entry 0 0 False (Some r) (Some t)) 1 = (1 < r)" for r t
    by (simp add: nm_entry_def nm_polynomial_pt_00 flt_def)
  then show ?thesis
    by (simp add: outside_mask_def rho_theta_grid2 nm_polynomial_entry zip2d_grid2 map2d_grid2)
qed

lemma Zernike_polynomial_grid2:
  assumes "0 < sz" "\<bar>z_m z\<bar> \<le> z_n z"
  shows "Zernike_polynomial z sz normed outside =
     Inr (grid2 (linspace (- 1) 1 (nat sz)) (linspace (- 1) 1 (nat sz))
            (\<lambda>y x. if 1 < hypot y x then outside
                   else nm_entry (z_n z) (z_m z) normed (Some (hypot y x)) (Some (arctan2 y x))))"
  using assms
  by (simp add: Zernike_polynomial_def rho_theta_grid2 nm_polynomial_entry outside_mask_grid2
      assign_masked_def zip2d_grid2)

lemma length_linspace [simp]: "length (linspace a b n) = n"
  by (simp add: linspace_def)

lemma length_grid2 [simp]: "length (grid2 a b g) = length a"
  by (simp add: grid2_def)

lemma length_grid2_nth [simp]: "i < length a \<Longrightarrow> length (grid2 a b g ! i) = length b"
  by (simp add: grid2_def)

lemma map_err_all:
  assumes "\<And>x. x \<in> set xs \<Longrightarrow> f x = Inr (g x)"
  shows "map_err f xs = Inr (map g xs)"
  using assms by (induction xs) simp_all

lemma zip2d_nth:
  assumes "i < length a" "i < length b" "j < length (a ! i)" "j < length (b ! i)"
  shows "zip2d f a b ! i ! j = f (a ! i ! j) (b ! i ! j)"
    and "i < length (zip2d f a b)" and "j < length (zip2d f a b ! i)"
  using assms by (simp_all add: zip2d_def)

lemma map2d_nth:
  assumes "i < length a" "j < length (a ! i)"
  shows "map2d f a ! i ! j = f (a ! i ! j)"
    and "i < length (map2d f a)" and "j < length (map2d f a ! i)"
  using assms by (simp_all add: map2d_def)

lemma foldl_zip2d_nth:
  assumes "i < length t" "j < length (t ! i)"
    and "\<And>u. u \<in> set ts \<Longrightarrow> i < length u \<and> j < length (u ! i)"
  shows "foldl (zip2d fadd) t ts ! i ! j = foldl fadd (t ! i ! j) (map (\<lambda>u. u ! i ! j) ts)"
  using assms
proof (induction ts arbitrary: t)
  case Nil
  then show ?case by simp
next
  case (Cons u ts)
  have u: "i < length u" "j < length (u ! i)" using Cons.prems(3)[of u] by simp_all
  have "foldl (zip2d fadd) (zip2d fadd t u) ts ! i ! j
      = foldl fadd (zip2d fadd t u ! i ! j) (map (\<lambda>u. u ! i ! j) ts)"
    using Cons.prems u by (intro Cons.IH) (simp_all add: zip2d_nth)
  then show ?case using Cons.prems(1,2) u by (simp add: zip2d_nth)
qed

lemma np_sum_axis0_nth:
  assumes "terms \<noteq> []" "\<And>u. u \<in> set terms \<Longrightarrow> i < length u \<and> j < length (u ! i)"
  shows "\<exists>A. np_sum_axis0 terms = NdArray A \<and> A ! i ! j = fsum (map (\<lambda>u. u ! i ! j) terms)"
proof (cases terms)
  case Nil
  then show ?thesis using assms(1) by simp
next
  case (Cons t ts)
  then show ?thesis
    using assms(2) foldl_zip2d_nth[of i t j ts] by (simp add: np_sum_axis0_def)
qed

lemma map2_map_right: "map2 f xs (map g xs) = map (\<lambda>x. f x (g x)) xs"
  by (induction xs) simp_all

lemma weighted_sum_nth:
  assumes ne: "zs \<noteq> []"
    and F: "\<And>za. za \<in> set zs \<Longrightarrow> F (fst za) = Inr (P za)"
    and sh: "\<And>za. za \<in> set zs \<Longrightarrow> i < length (P za) \<and> j < length (P za ! i)"
  shows "\<exists>A. bindE (map_err (\<lambda>(z, a). bindE (F z) (\<lambda>p. Inr (map2d (fmul a) p))) zs)
                 (\<lambda>terms. Inr (np_sum_axis0 terms)) = Inr (NdArray A)
           \<and> map_err (\<lambda>za. F (fst za)) zs = Inr (map P zs)
           \<and> A ! i ! j = fsum (map2 (\<lambda>za Q. fmul (snd za) (Q ! i ! j)) zs (map P zs))"
proof -
  let ?T = "\<lambda>za. map2d (fmul (snd za)) (P za)"
  have t: "map_err (\<lambda>(z, a). bindE (F z) (\<lambda>p. Inr (map2d (fmul a) p))) zs = Inr (map ?T zs)"
    by (rule map_err_all) (simp add: case_prod_unfold F)
  have p: "map_err (\<lambda>za. F (fst za)) zs = Inr (map P zs)"
    by (rule map_err_all) (simp add: F)
  have "\<exists>A. np_sum_axis0 (map ?T zs) = NdArray A
          \<and> A ! i ! j = fsum (map (\<lambda>u. u ! i ! j) (map ?T zs))"
    using ne sh by (intro np_sum_axis0_nth) (auto simp: map2d_def)
  then obtain A where A: "np_sum_axis0 (map ?T zs) = NdArray A"
    "A ! i ! j = fsum (map (\<lambda>u. u ! i ! j) (map ?T zs))" by blast
  have e: "map (\<lambda>u. u ! i ! j) (map ?T zs) = map (\<lambda>za. fmul (snd za) (P za ! i ! j)) zs"
    using sh by (simp add: map2d_def)
  have "A ! i ! j = fsum (map2 (\<lambda>za Q. fmul (snd za) (Q ! i ! j)) zs (map P zs))"
    by (simp only: A(2) e map2_map_right)
  then show ?thesis using t p A(1) by simp
qed

lemma Zernike_phase_closed:
  assumes "\<bar>z_m z\<bar> \<le> z_n z"
  shows "Zernike_phase z rho theta normed outside =
     Inr (case outside of
            None \<Rightarrow> zip2d (nm_entry (z_n z) (z_m z) normed) rho theta
          | Some v \<Rightarrow> assign_masked (map2d (\<lambda>x. flt x 1) (zip2d (nm_entry 0 0 False) rho theta)) v
                       (zip2d (nm_entry (z_n z) (z_m z) normed) rho theta))"
  using assms by (cases outside) (simp_all add: Zernike_phase_def nm_polynomial_entry)









lemma nm_entry_00_finite:
  "nm_entry 0 0 normed (Some r) (Some t) = Some (prefac 0 0 normed * (if r \<le> 1 then 1 else 0))"
  by (simp add: nm_entry_def nm_polynomial_pt_def radial_sum_def radial_term_def fmul_def fadd_def
      lift2_def fpow_def of_bool_f_def fle_def)









lemma linspace_1: "linspace a b (Suc 0) = [a]"
  by (simp add: linspace_def)

subsection \<open>The modes of a constructed wavefront\<close>

lemma Zernike_init_valid:
  assumes "Zernike_init index order = Inr z"
  shows "valid_nm 200 (z_n z, z_m z)"
proof -
  from assms obtain index' order' n m where
    r: "Zernike_resolve_nm index' order' = Inr (n, m)" and z: "z_n z = n" "z_m z = m"
    unfolding Zernike_init_def bindE_def
    by (auto split: sum.splits prod.splits if_splits simp: Let_def)
  have "valid_nm 200 (n, m)"
  proof (cases index')
    case (IdxSeq xs)
    then show ?thesis using r
      by (auto simp: Zernike_resolve_nm_def mem_nm_pairs split: list.splits if_splits)
  next
    case (IdxInt i)
    then have "table_lookup noll_to_nm i = Inr (n, m) \<or> table_lookup ansi_to_nm i = Inr (n, m)"
      using r by (auto simp: Zernike_resolve_nm_def Let_def split: if_splits)
    then show ?thesis using noll_lookup_Inr ansi_lookup_Inr by blast
  qed (use r in \<open>simp_all add: Zernike_resolve_nm_def\<close>)
  then show ?thesis by (simp add: z)
qed

lemma dict_set_keys:
  "kv \<in> set (dict_set eq d k v) \<Longrightarrow> fst kv \<in> fst ` set d \<or> fst kv = k"
  using set_dict_set_keys[of kv eq d k v] by blast

lemma build_zernikes_valid:
  assumes "build_zernikes order items d = Inr zs"
    and "\<forall>za\<in>set d. valid_nm 200 (z_n (fst za), z_m (fst za))"
  shows "\<forall>za\<in>set zs. valid_nm 200 (z_n (fst za), z_m (fst za))"
  using assms
proof (induction items arbitrary: d)
  case Nil
  then show ?case by simp
next
  case (Cons ja items)
  obtain j a where ja: "ja = (j, a)" by (cases ja)
  from Cons.prems(1) obtain z where z: "Zernike_init j order = Inr z"
    and r: "build_zernikes order items (dict_set Zernike_eq d z a) = Inr zs"
    by (cases "Zernike_init j order") (simp_all add: ja)
  have "\<forall>za\<in>set (dict_set Zernike_eq d z a). valid_nm 200 (z_n (fst za), z_m (fst za))"
  proof
    fix za assume "za \<in> set (dict_set Zernike_eq d z a)"
    from dict_set_keys[OF this] show "valid_nm 200 (z_n (fst za), z_m (fst za))"
      using Cons.prems(2) Zernike_init_valid[OF z] by auto
  qed
  from Cons.IH[OF r this] show ?case .
qed

lemma ZernikeWavefront_init_modes:
  assumes "ZernikeWavefront_init amps order = Inr w"
  shows "zernikes w \<noteq> [] \<and> (\<forall>za\<in>set (zernikes w). \<bar>z_m (fst za)\<bar> \<le> z_n (fst za))"
proof -
  from assms obtain items zs l_noll l_ansi req where
    zs: "build_zernikes order items [] = Inr zs"
    and l: "dict_to_list (fold (\<lambda>(z, a) kv. dict_set (=) kv (z_index_noll z) a) zs []) = Inr l_noll"
    and w: "w = \<lparr>zernikes = zs, amplitudes_noll = drop 1 l_noll, amplitudes_ansi = l_ansi,
                amplitudes_requested = req\<rparr>"
    unfolding ZernikeWavefront_init_def bindE_def by (auto split: sum.splits)
  have ne: "zs \<noteq> []" using l by (auto simp: dict_to_list_def)
  have "\<forall>za\<in>set zs. valid_nm 200 (z_n (fst za), z_m (fst za))"
    using build_zernikes_valid[OF zs] by simp
  then show ?thesis using ne by (auto simp: w valid_nm_def)
qed


subsection \<open>Facts about float64 rounding and the defocus stack\<close>






lemma rnd_not_NaN [simp]: "rnd x \<noteq> NaN"
  by (simp add: rnd_def Let_def)










lemma length_z_axis64 [simp]: "length (z_axis64 nz dz) = nat nz"
  by (simp add: z_axis64_def)



























section \<open>The claims\<close>




text \<open>
  C2. For every descriptor \<open>(n, m)\<close> with \<open>0 \<le> n < 200\<close>, \<open>|m| \<le> n\<close> and \<open>n - m\<close>
  even, looking \<^verbatim>\<open>nm_to_noll(n, m)\<close> up in the table \<^verbatim>\<open>_noll_to_nm\<close> gives
  \<open>(n, m)\<close> back, looking \<^verbatim>\<open>nm_to_ansi(n, m)\<close> up in \<^verbatim>\<open>_ansi_to_nm\<close> gives \<open>(n, m)\<close>
  back, and both index functions are injective on this set of descriptors.
\<close>

theorem index_roundtrip:
  assumes "0 \<le> n" "n < 200" "\<bar>m\<bar> \<le> n" "even (n - m)"
  shows "bindE (nm_to_noll n m) (table_lookup noll_to_nm) = Inr (n, m)
       \<and> table_lookup ansi_to_nm (nm_to_ansi n m) = Inr (n, m)
       \<and> inj_on (\<lambda>p. nm_to_noll (fst p) (snd p)) {p. valid_nm 200 p}
       \<and> inj_on (\<lambda>p. nm_to_ansi (fst p) (snd p)) {p. valid_nm 200 p}"
proof -
  have v: "valid_nm 200 (n, m)" using assms by (simp add: valid_nm_def)
  have a: "bindE (nm_to_noll n m) (table_lookup noll_to_nm) = Inr (n, m)"
    using noll_lookup_valid[OF v] nm_to_noll_noll_of[of "(n, m)"] by (simp add: bindE_def)
  have b: "table_lookup ansi_to_nm (nm_to_ansi n m) = Inr (n, m)"
    using ansi_lookup_valid[OF v] by simp
  have c: "inj_on (\<lambda>p. nm_to_noll (fst p) (snd p)) {p. valid_nm 200 p}"
    using inj_on_noll_of[of 200] by (simp add: inj_on_def nm_to_noll_noll_of)
  show ?thesis using a b c inj_on_ansi[of 200] by simp
qed

text \<open>
  C2 at the descriptor \<open>(2, 0)\<close>, whose Noll and ANSI indices are both \<open>4\<close>.
\<close>

theorem index_roundtrip_witness:
  "table_lookup noll_to_nm 4 = Inr (2, 0) \<and> table_lookup ansi_to_nm 4 = Inr (2, 0)"
  using index_roundtrip[of 2 0] by (simp add: nm_to_noll_def nm_to_ansi_def bindE_def)

text \<open>
  C3. For a wavefront with at least one mode, each of them with \<open>|m| \<le> n\<close> (as
  the modes of every wavefront the constructor returns are, by
  \<open>ZernikeWavefront_init_modes\<close>), and a grid size \<open>sz > 0\<close>:
  \<^verbatim>\<open>ZernikeWavefront.polynomial\<close> returns an array whose entries are the sums, over the modes in order, of the amplitude times the entry
  of that mode's own \<^verbatim>\<open>Zernike.polynomial\<close>, in which the outside value is already
  substituted; so outside the disc an entry is the sum of the amplitudes times
  the outside value, not the outside value. \<^verbatim>\<open>ZernikeWavefront.phase\<close> is the same
  sum over the modes' \<^verbatim>\<open>Zernike.phase\<close>.
\<close>

theorem wavefront_sum_of_masked_modes:
  assumes "zernikes w \<noteq> []" and "\<forall>za\<in>set (zernikes w). \<bar>z_m (fst za)\<bar> \<le> z_n (fst za)"
    and "0 < sz" "i < nat sz" "j < nat sz"
    and "i' < length rho" "i' < length theta" "j' < length (rho ! i')" "j' < length (theta ! i')"
  shows "(\<exists>A Ps M.
            ZernikeWavefront_polynomial w sz normed outside = Inr (NdArray A)
          \<and> map_err (\<lambda>za. Zernike_polynomial (fst za) sz normed outside) (zernikes w) = Inr Ps
          \<and> A ! i ! j = fsum (map2 (\<lambda>za P. fmul (snd za) (P ! i ! j)) (zernikes w) Ps)
          \<and> outside_mask (nat sz) = Inr M
          \<and> (M ! i ! j \<longrightarrow> A ! i ! j = fsum (map (\<lambda>za. fmul (snd za) outside) (zernikes w))))
       \<and> (\<exists>B Qs.
            ZernikeWavefront_phase w rho theta normed outside' = Inr (NdArray B)
          \<and> map_err (\<lambda>za. Zernike_phase (fst za) rho theta normed outside') (zernikes w) = Inr Qs
          \<and> B ! i' ! j' = fsum (map2 (\<lambda>za Q. fmul (snd za) (Q ! i' ! j')) (zernikes w) Qs))"
proof -
  let ?lin = "linspace (- 1) 1 (nat sz)"
  let ?P = "\<lambda>za. grid2 ?lin ?lin
            (\<lambda>y x. if 1 < hypot y x then outside
                   else nm_entry (z_n (fst za)) (z_m (fst za)) normed (Some (hypot y x)) (Some (arctan2 y x)))"
  have "\<exists>A. bindE (map_err (\<lambda>(z, a). bindE (Zernike_polynomial z sz normed outside)
                    (\<lambda>p. Inr (map2d (fmul a) p))) (zernikes w))
                 (\<lambda>terms. Inr (np_sum_axis0 terms)) = Inr (NdArray A)
           \<and> map_err (\<lambda>za. Zernike_polynomial (fst za) sz normed outside) (zernikes w) = Inr (map ?P (zernikes w))
           \<and> A ! i ! j = fsum (map2 (\<lambda>za Q. fmul (snd za) (Q ! i ! j)) (zernikes w) (map ?P (zernikes w)))"
    using assms(1-5) by (intro weighted_sum_nth) (simp_all add: Zernike_polynomial_grid2)
  then obtain A where A: "ZernikeWavefront_polynomial w sz normed outside = Inr (NdArray A)"
    "map_err (\<lambda>za. Zernike_polynomial (fst za) sz normed outside) (zernikes w) = Inr (map ?P (zernikes w))"
    "A ! i ! j = fsum (map2 (\<lambda>za Q. fmul (snd za) (Q ! i ! j)) (zernikes w) (map ?P (zernikes w)))"
    unfolding ZernikeWavefront_polynomial_def by blast
  let ?M = "grid2 ?lin ?lin (\<lambda>y x. 1 < hypot y x)"
  have M: "outside_mask (nat sz) = Inr ?M" by (rule outside_mask_grid2)
  have out: "A ! i ! j = fsum (map (\<lambda>za. fmul (snd za) outside) (zernikes w))" if "?M ! i ! j"
  proof -
    have P_out: "?P za ! i ! j = outside" for za
      using that assms(4,5) by (simp add: grid2_nth)
    show ?thesis by (simp only: A(3) map2_map_right P_out)
  qed
  let ?Q = "\<lambda>za. case outside' of
            None \<Rightarrow> zip2d (nm_entry (z_n (fst za)) (z_m (fst za)) normed) rho theta
          | Some v \<Rightarrow> assign_masked (map2d (\<lambda>x. flt x 1) (zip2d (nm_entry 0 0 False) rho theta)) v
                       (zip2d (nm_entry (z_n (fst za)) (z_m (fst za)) normed) rho theta)"
  have shQ: "i' < length (?Q za) \<and> j' < length (?Q za ! i')" for za
    using assms(6-9) by (cases outside') (simp_all add: assign_masked_def zip2d_def map2d_def)
  have "\<exists>B. bindE (map_err (\<lambda>(z, a). bindE (Zernike_phase z rho theta normed outside')
                    (\<lambda>p. Inr (map2d (fmul a) p))) (zernikes w))
                 (\<lambda>terms. Inr (np_sum_axis0 terms)) = Inr (NdArray B)
           \<and> map_err (\<lambda>za. Zernike_phase (fst za) rho theta normed outside') (zernikes w) = Inr (map ?Q (zernikes w))
           \<and> B ! i' ! j' = fsum (map2 (\<lambda>za Q. fmul (snd za) (Q ! i' ! j')) (zernikes w) (map ?Q (zernikes w)))"
    using assms(1,2) shQ by (intro weighted_sum_nth) (simp_all add: Zernike_phase_closed)
  then obtain B where B: "ZernikeWavefront_phase w rho theta normed outside' = Inr (NdArray B)"
    "map_err (\<lambda>za. Zernike_phase (fst za) rho theta normed outside') (zernikes w) = Inr (map ?Q (zernikes w))"
    "B ! i' ! j' = fsum (map2 (\<lambda>za Q. fmul (snd za) (Q ! i' ! j')) (zernikes w) (map ?Q (zernikes w)))"
    unfolding ZernikeWavefront_phase_def by blast
  show ?thesis
    using A M out B by auto
qed

text \<open>
  C3 at the wavefront of \<^verbatim>\<open>{(2, 0): 1.0, (0, 0): 2.0}\<close>, grid size \<open>1\<close> and outside
  value \<open>1\<close>: the only grid point lies outside the disc and its entry is
  \<open>1 * 1 + 2 * 1 = 3\<close>.
\<close>

theorem wavefront_sum_of_masked_modes_witness:
  "ZernikeWavefront_init two_modes ''noll'' = Inr two_modes_wavefront
   \<and> (\<exists>A. ZernikeWavefront_polynomial two_modes_wavefront 1 True (Some 1) = Inr (NdArray A)
          \<and> A ! 0 ! 0 = Some 3)
   \<and> (\<exists>B. ZernikeWavefront_phase two_modes_wavefront [[Some 2]] [[Some 0]] True (Some (Some 1))
            = Inr (NdArray B)
          \<and> B ! 0 ! 0 = Some 3)"
proof -
  have zs: "zernikes two_modes_wavefront = [(defocus, Some 1), (piston, Some 2)]"
    by (simp add: two_modes_wavefront_def)
  have h1: "zernikes two_modes_wavefront \<noteq> []" by (simp add: zs)
  have h2: "\<forall>za\<in>set (zernikes two_modes_wavefront). \<bar>z_m (fst za)\<bar> \<le> z_n (fst za)"
    by (simp add: zs defocus_def piston_def)
  from wavefront_sum_of_masked_modes[OF h1 h2, of 1 0 0 0 "[[Some 2]]" "[[Some 0]]" 0 True "Some 1" "Some (Some 1)"]
  obtain A Ps M B Qs where
    A: "ZernikeWavefront_polynomial two_modes_wavefront 1 True (Some 1) = Inr (NdArray A)"
    and M: "outside_mask (nat 1) = Inr M"
    and out: "M ! 0 ! 0 \<longrightarrow> A ! 0 ! 0 = fsum (map (\<lambda>za. fmul (snd za) (Some 1)) (zernikes two_modes_wavefront))"
    and B: "ZernikeWavefront_phase two_modes_wavefront [[Some 2]] [[Some 0]] True (Some (Some 1)) = Inr (NdArray B)"
    and Qs: "map_err (\<lambda>za. Zernike_phase (fst za) [[Some 2]] [[Some 0]] True (Some (Some 1)))
               (zernikes two_modes_wavefront) = Inr Qs"
    and Bv: "B ! 0 ! 0 = fsum (map2 (\<lambda>za Q. fmul (snd za) (Q ! 0 ! 0)) (zernikes two_modes_wavefront) Qs)"
    by auto
  have "M = [[True]]"
    using M by (auto simp: outside_mask_grid2 linspace_1 grid2_def hypot_def)
  then have a: "A ! 0 ! 0 = Some 3"
    using out by (simp add: zs fmul_def fadd_def lift2_def)
  have q: "Zernike_phase z [[Some 2]] [[Some 0]] True (Some (Some 1)) = Inr [[Some 1]]"
    if "\<bar>z_m z\<bar> \<le> z_n z" for z
    by (simp add: Zernike_phase_closed[OF that] assign_masked_def zip2d_def map2d_def
        nm_entry_00_finite flt_def prefac_def)
  have "Qs = [[[Some 1]], [[Some 1]]]"
    using Qs by (simp add: zs q defocus_def piston_def)
  then have b: "B ! 0 ! 0 = Some 3"
    using Bv by (simp add: zs fmul_def fadd_def lift2_def)
  show ?thesis
    using A a B b by (simp add: two_modes_init two_modes_wavefront_def)
qed

text \<open>
  C4. The claim: constructing a wavefront from an empty amplitude mapping succeeds
  and yields the zero wavefront. In the code, \<^verbatim>\<open>ZernikeWavefront({})\<close> reaches
  \<^verbatim>\<open>dict_to_list\<close> with no keys, where \<^verbatim>\<open>max\<close> of the empty sequence raises
  ValueError: the construction fails, whatever the order argument.
\<close>

theorem empty_wavefront_raises: "ZernikeWavefront_init (AmpDict []) order = Inl ValueError"
  by (simp add: ZernikeWavefront_init_def ensure_dict_def dict_to_list_def)

text \<open>
  C5, as the claim states it, fails: for the dict \<^verbatim>\<open>{(2, 0): 1.0, (0, 0): 2.0}\<close> the
  view \<^verbatim>\<open>amplitudes_requested\<close> is \<open>(2.0, 1.0)\<close>, not the supply order \<open>(1.0, 2.0)\<close>.
\<close>

theorem amplitudes_requested_not_supply_order:
  "map_sum id amplitudes_requested (ZernikeWavefront_init two_modes ''noll'') = Inr [Some 2, Some 1]
   \<and> map_sum id amplitudes_requested (ZernikeWavefront_init two_modes ''noll'') \<noteq> Inr [Some 1, Some 2]"
  by (simp add: two_modes_init)

text \<open>
  C5, amended. For every wavefront the constructor returns, \<^verbatim>\<open>amplitudes_requested\<close>
  holds the amplitudes of the wavefront's modes, without zero filling, in
  ascending order of the modes' ANSI index (a stable sort of the items by
  \<^verbatim>\<open>index_ansi\<close>), whatever the order in which they were supplied.
\<close>

theorem amplitudes_requested_sorted_by_ansi:
  assumes "ZernikeWavefront_init amps order = Inr w"
  shows "amplitudes_requested w = map snd (sort_key (\<lambda>p. z_index_ansi (fst p)) (zernikes w))"
proof -
  from assms obtain d items zs l_noll l_ansi req where
    zs: "build_zernikes order items [] = Inr zs"
    and req: "map_err (dict_get Zernike_eq zs) (sort_key z_index_ansi (map fst zs)) = Inr req"
    and w: "w = \<lparr>zernikes = zs, amplitudes_noll = drop 1 l_noll, amplitudes_ansi = l_ansi,
                amplitudes_requested = req\<rparr>"
    unfolding ZernikeWavefront_init_def bindE_def by (auto split: sum.splits)
  have kd: "keys_distinct Zernike_eq zs"
    using keys_distinct_build_zernikes[OF zs] by simp
  have "map_err (dict_get Zernike_eq zs) (map fst (sort_key (\<lambda>p. z_index_ansi (fst p)) zs))
        = Inr (map snd (sort_key (\<lambda>p. z_index_ansi (fst p)) zs))"
    by (rule map_err_dict_get[OF kd]) (simp_all add: Zernike_eq_def)
  then show ?thesis using req w by (simp add: sort_key_map_fst)
qed

text \<open>
  The amended C5 at the dict \<^verbatim>\<open>{(2, 0): 1.0, (0, 0): 2.0}\<close>.
\<close>

theorem amplitudes_requested_sorted_by_ansi_witness:
  "ZernikeWavefront_init two_modes ''ansi'' =
     Inr \<lparr>zernikes = [(defocus, Some 1), (piston, Some 2)],
          amplitudes_noll = [Some 2, Some 0, Some 0, Some 1],
          amplitudes_ansi = [Some 2, Some 0, Some 0, Some 0, Some 1],
          amplitudes_requested = [Some 2, Some 1]\<rparr>
   \<and> [Some 2, Some 1] = map snd (sort_key (\<lambda>p. z_index_ansi (fst p)) [(defocus, Some 1), (piston, Some (2::real))])"
  using amplitudes_requested_sorted_by_ansi[OF two_modes_init[of "''ansi''"]] two_modes_init[of "''ansi''"]
  by simp

text \<open>
  C6, as the claim states it, fails for wavefronts: the wavefront of
  \<^verbatim>\<open>{(0, 0): 1.0}\<close> accepts the assignment \<^verbatim>\<open>w.zernikes = {}\<close>; nothing is raised
  and the object has changed.
\<close>

theorem wavefront_setattr_succeeds:
  "ZernikeWavefront_init (AmpDict [(IdxSeq [0, 0], Scalar (Some 1))]) ''noll'' = Inr piston_wavefront
   \<and> fst (ZernikeWavefront_setattr object_setattr piston_wavefront (AssignZernikes []))
         \<noteq> Some AttributeError
   \<and> snd (ZernikeWavefront_setattr object_setattr piston_wavefront (AssignZernikes []))
         \<noteq> piston_wavefront"
  by (simp add: piston_wavefront_init ZernikeWavefront_setattr_def object_setattr_def
      piston_wavefront_def)

text \<open>
  C6, amended. After construction, every assignment to an attribute of a
  single-mode polynomial (\<^verbatim>\<open>Zernike\<close>) object, whatever the attribute, the value
  and the behaviour of \<^verbatim>\<open>object.__setattr__\<close>, raises AttributeError (the module's
  immutability error) and leaves the object as it was. The claim does not extend
  to wavefronts, whose class adds no guard.
\<close>

theorem Zernike_setattr_raises:
  assumes "Zernike_init index order = Inr z"
  shows "Zernike_setattr super_setattr z a v = (Some AttributeError, z)"
  using Zernike_init_immutable[OF assms] by (simp add: Zernike_setattr_def)

text \<open>
  The amended C6 at the mode \<open>(0, 0)\<close> and the assignment \<^verbatim>\<open>z.n = 5\<close>.
\<close>

theorem Zernike_setattr_raises_witness:
  "Zernike_init (IdxSeq [0, 0]) ''noll'' = Inr piston
   \<and> Zernike_setattr (\<lambda>z a v. (None, z\<lparr>z_n := v\<rparr>)) piston ''n'' 5 = (Some AttributeError, piston)"
  using Zernike_setattr_raises[OF Zernike_init_piston[of "''noll''"],
      where super_setattr="\<lambda>z a v. (None, z\<lparr>z_n := v\<rparr>)" and a="''n''" and v=5]
    Zernike_init_piston[of "''noll''"]
  by simp




text \<open>
  C8. For finite coordinate arrays \<open>rho\<close> and \<open>theta\<close>, the unnormalised
  polynomial of degree \<open>0\<close> is \<open>1\<close> where \<open>rho \<le> 1\<close> and \<open>0\<close> elsewhere; and for
  every grid size the outside mask is true exactly at the grid points whose
  radial coordinate exceeds \<open>1\<close>.
\<close>

theorem degree0_and_outside_mask:
  "nm_polynomial 0 0 (map2d Some rho) (map2d Some theta) False
       = Inr (zip2d (\<lambda>r t. Some (if r \<le> 1 then 1 else 0)) rho theta)
   \<and> fst (rho_theta sz) = map2d Some (rho_grid sz)
   \<and> outside_mask sz = Inr (map2d (\<lambda>r. 1 < r) (rho_grid sz))"
  by (simp add: nm_polynomial_00 rho_theta_grids outside_mask_grid)

text \<open>
  C9. \<^verbatim>\<open>Zernike(4, order='noll')\<close>, \<^verbatim>\<open>Zernike((2, 0))\<close> and \<^verbatim>\<open>Zernike("defocus")\<close>
  all construct the mode with \<open>n = 2\<close>, \<open>m = 0\<close>; the objects compare equal and
  their name is \<^verbatim>\<open>"defocus"\<close>.
\<close>

theorem defocus_three_ways:
  "Zernike_init (IdxInt 4) ''noll'' = Inr defocus
   \<and> Zernike_init (IdxSeq [2, 0]) ''noll'' = Inr defocus
   \<and> Zernike_init (IdxStr ''defocus'') ''noll'' = Inr defocus
   \<and> z_n defocus = 2 \<and> z_m defocus = 0 \<and> z_name defocus = Some ''defocus''
   \<and> Zernike_eq defocus defocus"
  using defocus_init by (simp add: defocus_def Zernike_eq_def)

text \<open>
  C10. For every generator, every \<open>phi\<close> and both flags, \<^verbatim>\<open>incoherent_psf_abs\<close>
  is the entrywise squared absolute value of \<^verbatim>\<open>incoherent_psf\<close>; when one raises,
  so does the other, with the same exception.
\<close>

theorem incoherent_psf_abs_is_abs_square:
  "incoherent_psf_abs g p normed masked =
     bindE (incoherent_psf g p normed masked)
       (\<lambda>psf. Inr (map3d (map_option (\<lambda>v. (cmod v)\<^sup>2)) psf))"
  by (cases "coherent_psf g p normed masked")
     (simp_all add: incoherent_psf_abs_def incoherent_psf_def my_ifftshift_map3d)


end
